theory Spec2Isabelle
  imports Main "HOL-Library.Word"
begin

unbundle bit_operations_syntax

section \<open>Raw memory\<close>

text \<open>
  The allocator keeps its bookkeeping records inside the very byte range it manages, and
  it reaches them through \<^verbatim>\<open>reinterpret_cast\<close>. An \<^verbatim>\<open>AllocationHeader\<close>, a
  \<^verbatim>\<open>FreeBlock\<close> and the client's payload can therefore occupy the same bytes at different
  times, so the store is modelled as it is on the machine: a map from 64-bit addresses to
  bytes. The data model is the one of the mainstream 64-bit platforms (LP64, little endian):
  \<^verbatim>\<open>int\<close> has 4 bytes, \<^verbatim>\<open>std::size_t\<close>, \<^verbatim>\<open>std::uintptr_t\<close> and pointers have 8 bytes,
  and a struct member is aligned to its own size. The null pointer is address 0.
\<close>

type_synonym addr = "64 word"
type_synonym byte = "8 word"
type_synonym memory = "addr \<Rightarrow> byte"

definition store_bytes :: "memory \<Rightarrow> addr \<Rightarrow> byte list \<Rightarrow> memory" where
  "store_bytes m a bs = (\<lambda>x. if x - a < of_nat (length bs) then bs ! unat (x - a) else m x)"

definition load_bytes :: "memory \<Rightarrow> addr \<Rightarrow> nat \<Rightarrow> byte list" where
  "load_bytes m a n = map (\<lambda>i. m (a + of_nat i)) [0..<n]"

definition le_bytes :: "nat \<Rightarrow> 'a::len word \<Rightarrow> byte list" where
  "le_bytes n w = map (\<lambda>i. ucast (drop_bit (8 * i) w)) [0..<n]"

definition le_word :: "byte list \<Rightarrow> 'a::len word" where
  "le_word bs = word_of_int (horner_sum uint (2 ^ 8) bs)"

definition load32 :: "memory \<Rightarrow> addr \<Rightarrow> 32 word" where
  "load32 m a = le_word (load_bytes m a 4)"

definition load64 :: "memory \<Rightarrow> addr \<Rightarrow> 64 word" where
  "load64 m a = le_word (load_bytes m a 8)"

definition store32 :: "memory \<Rightarrow> addr \<Rightarrow> 32 word \<Rightarrow> memory" where
  "store32 m a v = store_bytes m a (le_bytes 4 v)"

definition store64 :: "memory \<Rightarrow> addr \<Rightarrow> 64 word \<Rightarrow> memory" where
  "store64 m a v = store_bytes m a (le_bytes 8 v)"

section \<open>The records of \<^verbatim>\<open>FreeListAllocatorCustom.h\<close>\<close>

text \<open>
  \<^verbatim>\<open>struct FreeBlock { int size; FreeBlock* next; FreeBlock* prev; }\<close>: \<^verbatim>\<open>size\<close> at offset
  0 (4 bytes, then 4 bytes of padding), \<^verbatim>\<open>next\<close> at offset 8, \<^verbatim>\<open>prev\<close> at offset 16;
  24 bytes in all.

  \<^verbatim>\<open>struct AllocationHeader { int size; uintptr_t adjustment; }\<close>: \<^verbatim>\<open>size\<close> at offset 0,
  \<^verbatim>\<open>adjustment\<close> at offset 8; 16 bytes in all.
\<close>

definition sizeof_FreeBlock :: "64 word" where
  "sizeof_FreeBlock = 24"

definition sizeof_AllocationHeader :: "64 word" where
  "sizeof_AllocationHeader = 16"

definition fb_size :: "memory \<Rightarrow> addr \<Rightarrow> 32 word" where
  "fb_size m b = load32 m b"

definition fb_next :: "memory \<Rightarrow> addr \<Rightarrow> addr" where
  "fb_next m b = load64 m (b + 8)"

definition fb_prev :: "memory \<Rightarrow> addr \<Rightarrow> addr" where
  "fb_prev m b = load64 m (b + 16)"

definition set_fb_size :: "memory \<Rightarrow> addr \<Rightarrow> 32 word \<Rightarrow> memory" where
  "set_fb_size m b v = store32 m b v"

definition set_fb_next :: "memory \<Rightarrow> addr \<Rightarrow> addr \<Rightarrow> memory" where
  "set_fb_next m b v = store64 m (b + 8) v"

definition set_fb_prev :: "memory \<Rightarrow> addr \<Rightarrow> addr \<Rightarrow> memory" where
  "set_fb_prev m b v = store64 m (b + 16) v"

definition hdr_size :: "memory \<Rightarrow> addr \<Rightarrow> 32 word" where
  "hdr_size m h = load32 m h"

definition hdr_adjustment :: "memory \<Rightarrow> addr \<Rightarrow> 64 word" where
  "hdr_adjustment m h = load64 m (h + 8)"

definition set_hdr_size :: "memory \<Rightarrow> addr \<Rightarrow> 32 word \<Rightarrow> memory" where
  "set_hdr_size m h v = store32 m h v"

definition set_hdr_adjustment :: "memory \<Rightarrow> addr \<Rightarrow> 64 word \<Rightarrow> memory" where
  "set_hdr_adjustment m h v = store64 m (h + 8) v"

text \<open>
  The conversions the compiler inserts around the \<^verbatim>\<open>int\<close> fields: an \<^verbatim>\<open>int\<close> that meets a
  \<^verbatim>\<open>std::size_t\<close> in an expression is sign-extended to 64 bits, and a \<^verbatim>\<open>std::size_t\<close>
  assigned to an \<^verbatim>\<open>int\<close> keeps its low 32 bits.
\<close>

definition int_to_size_t :: "32 word \<Rightarrow> 64 word" where
  "int_to_size_t i = scast i"

definition size_t_to_int :: "64 word \<Rightarrow> 32 word" where
  "size_t_to_int s = ucast s"

section \<open>The allocator object\<close>

text \<open>
  The members of \<^verbatim>\<open>Allocator\<close> (\<^verbatim>\<open>Allocator.h\<close>) and of \<^verbatim>\<open>FreeListAllocator\<close>, together
  with the memory the object works on.
\<close>

record allocator =
  m_size :: "64 word"
  m_usedBytes :: "64 word"
  m_numAllocations :: "64 word"
  m_start :: addr
  m_freeBlocks :: addr
  mem :: memory

datatype error = bad_alloc | assertion_failed | division_by_zero

definition GetSize :: "allocator \<Rightarrow> 64 word" where
  "GetSize a = m_size a"

definition GetUsed :: "allocator \<Rightarrow> 64 word" where
  "GetUsed a = m_usedBytes a"

definition GetNumAllocation :: "allocator \<Rightarrow> 64 word" where
  "GetNumAllocation a = m_numAllocations a"

definition GetStart :: "allocator \<Rightarrow> addr" where
  "GetStart a = m_start a"

text \<open>
  The constructors, with their assertions in the order they run: the base class
  \<^verbatim>\<open>Allocator\<close> first (\<^verbatim>\<open>assert(sizeBytes > 0)\<close>), then the body of
  \<^verbatim>\<open>FreeListAllocator::FreeListAllocator\<close>.
\<close>

definition Allocator_ctor :: "64 word \<Rightarrow> addr \<Rightarrow> memory \<Rightarrow> error + allocator" where
  "Allocator_ctor sizeBytes start m =
     (if sizeBytes > 0
      then Inr \<lparr>m_size = sizeBytes, m_usedBytes = 0, m_numAllocations = 0,
                m_start = start, m_freeBlocks = 0, mem = m\<rparr>
      else Inl assertion_failed)"

definition FreeListAllocator_ctor :: "64 word \<Rightarrow> addr \<Rightarrow> memory \<Rightarrow> error + allocator" where
  "FreeListAllocator_ctor sizeBytes start m =
     (case Allocator_ctor sizeBytes start m of
        Inl e \<Rightarrow> Inl e
      | Inr a \<Rightarrow>
          if sizeBytes > sizeof_FreeBlock
          then let m1 = set_fb_size (mem a) start (size_t_to_int sizeBytes);
                   m2 = set_fb_next m1 start 0;
                   m3 = set_fb_prev m2 start 0
               in Inr (a\<lparr>m_freeBlocks := start, mem := m3\<rparr>)
          else Inl assertion_failed)"

section \<open>Header and alignment arithmetic\<close>

definition ptr_add :: "addr \<Rightarrow> 64 word \<Rightarrow> addr" where
  "ptr_add p amount = p + amount"

definition ptr_sub :: "addr \<Rightarrow> 64 word \<Rightarrow> addr" where
  "ptr_sub ptr sizeHeader = ptr - sizeHeader"

text \<open>
  \<^verbatim>\<open>align_forward_adjustment_with_header<T>\<close>; the template argument enters only through
  \<^verbatim>\<open>sizeof(T)\<close>, the parameter \<open>required\<close>. The division traps when \<open>alignment\<close> is 0.
\<close>

definition align_forward_adjustment_with_header ::
    "64 word \<Rightarrow> addr \<Rightarrow> 64 word \<Rightarrow> error + 64 word" where
  "align_forward_adjustment_with_header required ptr alignment =
     (let iptr = ptr;
          aligned = (iptr + (alignment - 1)) AND NOT (alignment - 1);
          adjustment = aligned - iptr
      in if adjustment < required
         then let neededSpace = required - adjustment
              in if alignment = 0 then Inl division_by_zero
                 else Inr (adjustment + alignment * ((neededSpace + alignment - 1) div alignment))
         else Inr adjustment)"

section \<open>\<^verbatim>\<open>FreeListAllocator::Allocate\<close>\<close>

text \<open>
  The search loop of \<^verbatim>\<open>Allocate\<close> (lines 96 to 115). It follows \<^verbatim>\<open>next\<close> pointers read
  from memory and need not terminate on a cyclic list, hence the option.
\<close>

partial_function (option) Allocate_search ::
    "memory \<Rightarrow> 64 word \<Rightarrow> 64 word \<Rightarrow> addr \<Rightarrow> addr \<Rightarrow> 64 word \<Rightarrow> 64 word
      \<Rightarrow> (memory \<times> (error + addr \<times> 64 word \<times> 64 word)) option" where
  "Allocate_search m size' alignment freeBlock bestFit bestFitTotalSize bestFitAdjustment =
     (if freeBlock = 0 then Some (m, Inr (bestFit, bestFitTotalSize, bestFitAdjustment))
      else case align_forward_adjustment_with_header sizeof_AllocationHeader freeBlock alignment of
        Inl e \<Rightarrow> Some (m, Inl e)
      | Inr adjustment \<Rightarrow>
          let totalSize = size' + adjustment + sizeof_AllocationHeader
          in if int_to_size_t (fb_size m freeBlock) > totalSize
                \<and> (bestFit = 0 \<or> fb_size m freeBlock <s fb_size m bestFit)
             then let m1 = (if fb_next m freeBlock \<noteq> 0
                            then set_fb_prev m (fb_next m freeBlock) freeBlock else m);
                      m2 = (if fb_prev m1 freeBlock \<noteq> 0
                            then set_fb_next m1 (fb_prev m1 freeBlock) freeBlock else m1)
                  in Allocate_search m2 size' alignment (fb_next m2 freeBlock)
                       freeBlock totalSize adjustment
             else Allocate_search m size' alignment (fb_next m freeBlock)
                    bestFit bestFitTotalSize bestFitAdjustment)"

text \<open>Lines 120 to 131: the whole block is consumed and unlinked.\<close>

definition Allocate_consume :: "memory \<Rightarrow> addr \<Rightarrow> addr \<Rightarrow> memory \<times> addr" where
  "Allocate_consume m head bestFit =
     (let (m1, head1) =
            (if fb_prev m bestFit \<noteq> 0
             then (set_fb_next m (fb_prev m bestFit) (fb_next m bestFit), head)
             else (m, fb_next m bestFit));
          m2 = (if fb_next m1 bestFit \<noteq> 0
                then set_fb_prev m1 (fb_next m1 bestFit) (fb_prev m1 bestFit) else m1)
      in (m2, head1))"

text \<open>Lines 132 to 147: the block is split and the remainder takes its place in the list.\<close>

definition Allocate_split :: "memory \<Rightarrow> addr \<Rightarrow> addr \<Rightarrow> 64 word \<Rightarrow> memory \<times> addr" where
  "Allocate_split m head bestFit bestFitTotalSize =
     (let newBlock = ptr_add bestFit bestFitTotalSize;
          m1 = set_fb_size m newBlock
                 (size_t_to_int (int_to_size_t (fb_size m bestFit) - bestFitTotalSize));
          m2 = set_fb_next m1 newBlock (fb_next m1 bestFit);
          m3 = set_fb_prev m2 newBlock (fb_prev m2 bestFit);
          m4 = (if fb_next m3 bestFit \<noteq> 0
                then set_fb_prev m3 (fb_next m3 bestFit) newBlock else m3)
      in if fb_prev m4 bestFit \<noteq> 0
         then (set_fb_next m4 (fb_prev m4 bestFit) newBlock, head)
         else (m4, newBlock))"

definition Allocate :: "allocator \<Rightarrow> 64 word \<Rightarrow> 64 word \<Rightarrow> ((error + addr) \<times> allocator) option" where
  "Allocate a size' alignment =
     (case Allocate_search (mem a) size' alignment (m_freeBlocks a) 0 0 0 of
        None \<Rightarrow> None
      | Some (m, Inl e) \<Rightarrow> Some (Inl e, a\<lparr>mem := m\<rparr>)
      | Some (m, Inr (bestFit, searchTotalSize, bestFitAdjustment)) \<Rightarrow>
          if bestFit = 0 then Some (Inl bad_alloc, a\<lparr>mem := m\<rparr>)
          else
            let (bestFitTotalSize, m', head') =
                  (if int_to_size_t (fb_size m bestFit) \<le> searchTotalSize + sizeof_AllocationHeader
                   then (int_to_size_t (fb_size m bestFit),
                         Allocate_consume m (m_freeBlocks a) bestFit)
                   else (searchTotalSize,
                         Allocate_split m (m_freeBlocks a) bestFit searchTotalSize));
                alignedAddr = bestFit + bestFitAdjustment;
                header = alignedAddr - sizeof_AllocationHeader;
                m1 = set_hdr_adjustment m' header bestFitAdjustment;
                m2 = set_hdr_size m1 header (size_t_to_int bestFitTotalSize)
            in Some (Inr alignedAddr,
                 a\<lparr>mem := m2, m_freeBlocks := head',
                   m_usedBytes := m_usedBytes a + bestFitTotalSize,
                   m_numAllocations := m_numAllocations a + 1\<rparr>))"

section \<open>\<^verbatim>\<open>FreeListAllocator::Free\<close>\<close>

text \<open>\<^verbatim>\<open>ZeroedAddresses\<close>: one byte per iteration.\<close>

function ZeroedAddresses :: "memory \<Rightarrow> addr \<Rightarrow> addr \<Rightarrow> memory" where
  "ZeroedAddresses m ptr_addr zero_addr =
     (if ptr_addr < zero_addr
      then ZeroedAddresses (m(ptr_addr := 0)) (ptr_addr + 1) zero_addr
      else m)"
  by pat_completeness auto

termination ZeroedAddresses
proof (relation "measure (\<lambda>(m, p, z). unat (z - p))")
  fix m :: memory and ptr_addr zero_addr :: addr
  assume "ptr_addr < zero_addr"
  then have "unat (zero_addr - (ptr_addr + 1)) < unat (zero_addr - ptr_addr)"
    by unat_arith
  then show "((m(ptr_addr := 0), ptr_addr + 1, zero_addr), (m, ptr_addr, zero_addr))
               \<in> measure (\<lambda>(m, p, z). unat (z - p))"
    by simp
qed simp

declare ZeroedAddresses.simps [simp del]

text \<open>The scan for the insertion point (lines 173 to 177); it only reads.\<close>

partial_function (option) Free_scan ::
    "memory \<Rightarrow> addr \<Rightarrow> addr \<Rightarrow> addr \<Rightarrow> (addr \<times> addr) option" where
  "Free_scan m blockStart prevFreeBlock freeBlock =
     (if freeBlock \<noteq> 0 \<and> freeBlock < blockStart
      then Free_scan m blockStart freeBlock (fb_next m freeBlock)
      else Some (prevFreeBlock, freeBlock))"

text \<open>Lines 184 to 196: merging into the predecessor.\<close>

definition Free_coalesce_backward :: "memory \<Rightarrow> addr \<Rightarrow> memory \<times> addr" where
  "Free_coalesce_backward m newBlock =
     (if fb_prev m newBlock \<noteq> 0
         \<and> fb_prev m newBlock + int_to_size_t (fb_size m (fb_prev m newBlock)) = newBlock
      then let m1 = set_fb_size m (fb_prev m newBlock)
                      (fb_size m (fb_prev m newBlock) + fb_size m newBlock);
               m2 = set_fb_next m1 (fb_prev m1 newBlock) (fb_next m1 newBlock);
               m3 = (if fb_next m2 newBlock \<noteq> 0
                     then set_fb_prev m2 (fb_next m2 newBlock) (fb_prev m2 newBlock) else m2)
           in (m3, fb_prev m3 newBlock)
      else (m, newBlock))"

text \<open>Lines 198 to 208: merging the successor in.\<close>

definition Free_coalesce_forward :: "memory \<Rightarrow> addr \<Rightarrow> memory" where
  "Free_coalesce_forward m newBlock =
     (if fb_next m newBlock \<noteq> 0
         \<and> newBlock + int_to_size_t (fb_size m newBlock) = fb_next m newBlock
      then let m1 = set_fb_size m newBlock
                      (fb_size m newBlock + fb_size m (fb_next m newBlock));
               m2 = set_fb_next m1 newBlock (fb_next m1 (fb_next m1 newBlock))
           in if fb_prev m2 newBlock \<noteq> 0
              then set_fb_next m2 (fb_prev m2 newBlock) newBlock else m2
      else m)"

text \<open>Lines 210 to 215: the neighbours are linked again and the head is set.\<close>

definition Free_relink :: "memory \<Rightarrow> addr \<Rightarrow> addr \<Rightarrow> memory \<times> addr" where
  "Free_relink m head newBlock =
     (let m1 = (if fb_next m newBlock \<noteq> 0
                then set_fb_prev m (fb_next m newBlock) newBlock else m)
      in if fb_prev m1 newBlock \<noteq> 0
         then (set_fb_next m1 (fb_prev m1 newBlock) newBlock, head)
         else (m1, newBlock))"

definition Free :: "allocator \<Rightarrow> addr \<Rightarrow> (error + allocator) option" where
  "Free a ptr =
     (if ptr = 0 then Some (Inl assertion_failed)
      else
        let m0 = mem a;
            header = ptr_sub ptr sizeof_AllocationHeader;
            blockStart = ptr - hdr_adjustment m0 header;
            blockSize = int_to_size_t (hdr_size m0 header)
        in case Free_scan m0 blockStart 0 (m_freeBlocks a) of
             None \<Rightarrow> None
           | Some (prevFreeBlock, freeBlock) \<Rightarrow>
               let m1 = set_fb_size m0 blockStart (size_t_to_int blockSize);
                   m2 = set_fb_next m1 blockStart freeBlock;
                   m3 = set_fb_prev m2 blockStart prevFreeBlock;
                   merged = Free_coalesce_backward m3 blockStart;
                   newBlock = snd merged;
                   m5 = Free_coalesce_forward (fst merged) newBlock;
                   linked = Free_relink m5 (m_freeBlocks a) newBlock;
                   m6 = fst linked;
                   start = blockStart + hdr_adjustment m6 header;
                   end_addr = blockStart + blockSize;
                   m7 = ZeroedAddresses m6 start end_addr
               in Some (Inr (a\<lparr>mem := m7, m_freeBlocks := snd linked,
                               m_numAllocations := m_numAllocations a - 1,
                               m_usedBytes := m_usedBytes a - blockSize\<rparr>)))"

section \<open>\<^verbatim>\<open>STLAdaptor::operator==\<close>\<close>

text \<open>
  The adaptor holds a reference to its allocator. For an \<^verbatim>\<open>Alloc\<close> derived from
  \<^verbatim>\<open>FixedAllocator\<close>, as \<^verbatim>\<open>FreeListAllocator\<close> is, the \<^verbatim>\<open>if constexpr\<close> keeps the first
  branch only.
\<close>

record STLAdaptor =
  m_allocator :: allocator

definition STLAdaptor_ctor :: "allocator \<Rightarrow> STLAdaptor" where
  "STLAdaptor_ctor allocator = \<lparr>m_allocator = allocator\<rparr>"

definition STLAdaptor_eq :: "STLAdaptor \<Rightarrow> STLAdaptor \<Rightarrow> bool" where
  "STLAdaptor_eq lhs rhs \<longleftrightarrow> GetStart (m_allocator lhs) = GetStart (m_allocator rhs)"

definition STLAdaptor_neq :: "STLAdaptor \<Rightarrow> STLAdaptor \<Rightarrow> bool" where
  "STLAdaptor_neq lhs rhs \<longleftrightarrow> \<not> STLAdaptor_eq lhs rhs"

text \<open>
  The allocator states an adaptor can be bound to: what the constructor makes of an arena
  at \<open>start\<close>, and every state \<^verbatim>\<open>Allocate\<close>, \<^verbatim>\<open>Free\<close> and the client's writes to
  memory lead to from there.
\<close>

inductive from_arena :: "addr \<Rightarrow> allocator \<Rightarrow> bool" where
  constructed: "FreeListAllocator_ctor sizeBytes start m = Inr a \<Longrightarrow> from_arena start a"
| allocated: "from_arena start a \<Longrightarrow> Allocate a size' alignment = Some (r, a')
    \<Longrightarrow> from_arena start a'"
| freed: "from_arena start a \<Longrightarrow> Free a ptr = Some (Inr a') \<Longrightarrow> from_arena start a'"
| written: "from_arena start a \<Longrightarrow> from_arena start (a\<lparr>mem := m\<rparr>)"

section \<open>Well-formed free lists\<close>

text \<open>
  The free list as the loops see it: \<open>fl_path m h bs\<close> says that following \<^verbatim>\<open>next\<close> from
  \<open>h\<close> visits exactly the blocks \<open>bs\<close> and then reaches the null pointer, and
  \<open>fl_prevs m p bs\<close> that every \<^verbatim>\<open>prev\<close> points at the block before (\<open>p\<close> for the first).
\<close>

primrec fl_path :: "memory \<Rightarrow> addr \<Rightarrow> addr list \<Rightarrow> bool" where
  "fl_path m h [] \<longleftrightarrow> h = 0"
| "fl_path m h (b # bs) \<longleftrightarrow> h = b \<and> b \<noteq> 0 \<and> fl_path m (fb_next m b) bs"

primrec fl_prevs :: "memory \<Rightarrow> addr \<Rightarrow> addr list \<Rightarrow> bool" where
  "fl_prevs m p [] \<longleftrightarrow> True"
| "fl_prevs m p (b # bs) \<longleftrightarrow> fb_prev m b = p \<and> fl_prevs m b bs"

definition free_list :: "allocator \<Rightarrow> addr list \<Rightarrow> bool" where
  "free_list a bs \<longleftrightarrow> fl_path (mem a) (m_freeBlocks a) bs \<and> fl_prevs (mem a) 0 bs"

section \<open>Best fit\<close>

text \<open>
  In the words of the specification: the size of a free block is the number its size field
  holds, the footprint of a request at a block is the sum of the requested size, the
  adjustment for that block's address and the size of the header, and a block qualifies
  when its size exceeds the footprint. The best fit is the first of the qualifying blocks
  of least size.
\<close>

definition block_size :: "memory \<Rightarrow> addr \<Rightarrow> nat" where
  "block_size m b = unat (fb_size m b)"

definition qualifies :: "memory \<Rightarrow> 64 word \<Rightarrow> 64 word \<Rightarrow> addr \<Rightarrow> bool" where
  "qualifies m size' alignment b \<longleftrightarrow>
     (case align_forward_adjustment_with_header sizeof_AllocationHeader b alignment of
        Inl e \<Rightarrow> False
      | Inr adjustment \<Rightarrow>
          unat size' + unat adjustment + unat sizeof_AllocationHeader < block_size m b)"

definition best_fit :: "memory \<Rightarrow> 64 word \<Rightarrow> 64 word \<Rightarrow> addr list \<Rightarrow> addr \<Rightarrow> bool" where
  "best_fit m size' alignment bs B \<longleftrightarrow>
     (\<exists>xs ys. bs = xs @ B # ys \<and> qualifies m size' alignment B
        \<and> (\<forall>x\<in>set xs. qualifies m size' alignment x \<longrightarrow> block_size m B < block_size m x)
        \<and> (\<forall>y\<in>set ys. qualifies m size' alignment y \<longrightarrow> block_size m B \<le> block_size m y))"

text \<open>
  The lists on which the code can be expected to agree with that: every size fits the
  \<^verbatim>\<open>int\<close> field, that is, lies below 2 GiB, and no footprint overflows
  \<^verbatim>\<open>std::size_t\<close>.
\<close>

definition below_2G :: "memory \<Rightarrow> addr list \<Rightarrow> bool" where
  "below_2G m bs \<longleftrightarrow> (\<forall>b\<in>set bs. block_size m b < 2 ^ 31)"

definition footprints_fit :: "64 word \<Rightarrow> 64 word \<Rightarrow> addr list \<Rightarrow> bool" where
  "footprints_fit size' alignment bs \<longleftrightarrow>
     (\<forall>b\<in>set bs.
        case align_forward_adjustment_with_header sizeof_AllocationHeader b alignment of
          Inl e \<Rightarrow> True
        | Inr adjustment \<Rightarrow>
            unat size' + unat adjustment + unat sizeof_AllocationHeader < 2 ^ 64)"

text \<open>
  The test of line 101 as it runs: the \<^verbatim>\<open>int\<close> size is converted to \<^verbatim>\<open>std::size_t\<close> for
  the comparison with the footprint, which is a sum of \<^verbatim>\<open>std::size_t\<close> and wraps around,
  and two sizes are compared as \<^verbatim>\<open>int\<close>. These are not the notions of the
  specification; they describe what the loop computes on any list.
\<close>

definition code_qualifies :: "memory \<Rightarrow> 64 word \<Rightarrow> 64 word \<Rightarrow> addr \<Rightarrow> bool" where
  "code_qualifies m size' alignment b \<longleftrightarrow>
     (case align_forward_adjustment_with_header sizeof_AllocationHeader b alignment of
        Inl e \<Rightarrow> False
      | Inr adjustment \<Rightarrow>
          int_to_size_t (fb_size m b) > size' + adjustment + sizeof_AllocationHeader)"

definition code_best_fit :: "memory \<Rightarrow> 64 word \<Rightarrow> 64 word \<Rightarrow> addr list \<Rightarrow> addr \<Rightarrow> bool" where
  "code_best_fit m size' alignment bs B \<longleftrightarrow>
     (\<exists>xs ys. bs = xs @ B # ys \<and> code_qualifies m size' alignment B
        \<and> (\<forall>x\<in>set xs. code_qualifies m size' alignment x \<longrightarrow> sint (fb_size m B) < sint (fb_size m x))
        \<and> (\<forall>y\<in>set ys. code_qualifies m size' alignment y \<longrightarrow> sint (fb_size m B) \<le> sint (fb_size m y)))"

text \<open>The search loop as a function of the list of blocks it visits, and its invariant.\<close>

fun search_list ::
    "memory \<Rightarrow> 64 word \<Rightarrow> 64 word \<Rightarrow> addr list \<Rightarrow> addr \<times> 64 word \<times> 64 word
      \<Rightarrow> addr \<times> 64 word \<times> 64 word" where
  "search_list m size' alignment [] acc = acc"
| "search_list m size' alignment (b # bs) (bestFit, bestFitTotalSize, bestFitAdjustment) =
     (case align_forward_adjustment_with_header sizeof_AllocationHeader b alignment of
        Inl e \<Rightarrow> (bestFit, bestFitTotalSize, bestFitAdjustment)
      | Inr adjustment \<Rightarrow>
          let totalSize = size' + adjustment + sizeof_AllocationHeader
          in if int_to_size_t (fb_size m b) > totalSize
                \<and> (bestFit = 0 \<or> fb_size m b <s fb_size m bestFit)
             then search_list m size' alignment bs (b, totalSize, adjustment)
             else search_list m size' alignment bs (bestFit, bestFitTotalSize, bestFitAdjustment))"

definition search_inv :: "memory \<Rightarrow> 64 word \<Rightarrow> 64 word \<Rightarrow> addr list \<Rightarrow> addr \<times> 64 word \<times> 64 word \<Rightarrow> bool" where
  "search_inv m size' alignment pre acc \<longleftrightarrow>
     (case acc of (bestFit, bestFitTotalSize, bestFitAdjustment) \<Rightarrow>
        if bestFit = 0 then \<forall>x\<in>set pre. \<not> code_qualifies m size' alignment x
        else code_best_fit m size' alignment pre bestFit
             \<and> align_forward_adjustment_with_header sizeof_AllocationHeader bestFit alignment
                 = Inr bestFitAdjustment
             \<and> bestFitTotalSize = size' + bestFitAdjustment + sizeof_AllocationHeader)"

section \<open>The padding, on natural numbers\<close>

text \<open>
  What \<^verbatim>\<open>align_forward_adjustment_with_header\<close> adds to a first padding \<open>n0\<close> when the
  header needs \<open>r\<close> bytes and the alignment is \<open>A\<close>, without the wrap-around of the
  machine arithmetic.
\<close>

definition padded :: "nat \<Rightarrow> nat \<Rightarrow> nat \<Rightarrow> nat" where
  "padded r A n0 = (if n0 < r then n0 + A * ((r - n0 + A - 1) div A) else n0)"

section \<open>Fixtures\<close>

text \<open>A free block record written field by field, and a list of three blocks of sizes 50, 200 and 100.\<close>

definition put_FreeBlock :: "memory \<Rightarrow> addr \<Rightarrow> 32 word \<Rightarrow> addr \<Rightarrow> addr \<Rightarrow> memory" where
  "put_FreeBlock m b sz nx pv = set_fb_prev (set_fb_next (set_fb_size m b sz) b nx) b pv"

definition sizes_50_200_100 :: allocator where
  "sizes_50_200_100 =
     \<lparr>m_size = 0x3000, m_usedBytes = 0, m_numAllocations = 0,
      m_start = 0x1000, m_freeBlocks = 0x1000,
      mem = put_FreeBlock (put_FreeBlock (put_FreeBlock (\<lambda>_. 0)
              0x1000 50 0x2000 0) 0x2000 200 0x3000 0x1000) 0x3000 100 0 0x2000\<rparr>"

text \<open>
  The arena of \<^verbatim>\<open>main\<close>: 300 bytes at an address \<^verbatim>\<open>malloc\<close> might return, here
  \<^verbatim>\<open>0x1000\<close>, every byte still holding the junk value \<^verbatim>\<open>0xAA\<close>; and the allocator the
  constructor makes of it.
\<close>

definition junk :: memory where
  "junk = (\<lambda>_. 0xAA)"

definition arena_300 :: allocator where
  "arena_300 =
     \<lparr>m_size = 300, m_usedBytes = 0, m_numAllocations = 0, m_start = 0x1000,
      m_freeBlocks = 0x1000,
      mem = store64 (store64 (store32 junk 0x1000 300) 0x1008 0) 0x1010 0\<rparr>"

text \<open>The same arena after \<^verbatim>\<open>Allocate(16, 8)\<close>.\<close>

definition arena_300_A :: allocator where
  "arena_300_A =
     \<lparr>m_size = 300, m_usedBytes = 48, m_numAllocations = 1, m_start = 0x1000,
      m_freeBlocks = 0x1030,
      mem = store32 (store64 (store64 (store64 (store32 (mem arena_300)
              0x1030 252) 0x1038 0) 0x1040 0) 0x1008 16) 0x1000 48\<rparr>"

text \<open>An arena of 2 GiB and 64 bytes.\<close>

definition arena_2G :: allocator where
  "arena_2G =
     \<lparr>m_size = 0x80000040, m_usedBytes = 0, m_numAllocations = 0, m_start = 0x1000,
      m_freeBlocks = 0x1000,
      mem = store64 (store64 (store32 (\<lambda>_. 0) 0x1000 0x80000040) 0x1008 0) 0x1010 0\<rparr>"

text \<open>The states of the runs evaluated below, each written over the memory of the state before it.\<close>

text \<open>The arena of 300 bytes after \<^verbatim>\<open>Allocate(16, 8)\<close>, the payload filled with \<^verbatim>\<open>0xFF\<close>,\<close>

definition arena_300_A_written :: allocator where
  "arena_300_A_written = arena_300_A\<lparr>mem := store_bytes (mem arena_300_A) 0x1010 (replicate 16 0xFF)\<rparr>"

text \<open>and that allocation freed.\<close>

definition arena_300_A_freed :: allocator where
  "arena_300_A_freed =
     \<lparr>m_size = 300, m_usedBytes = 0, m_numAllocations = 0,
      m_start = 0x1000, m_freeBlocks = 0x1000,
      mem = ZeroedAddresses (store64 (store32 (store64 (store64 (store32 (mem arena_300_A_written) 0x1000 48) 0x1008 0x1030) 0x1010 0) 0x1000 300) 0x1008 0)
            0x1000 0x1030\<rparr>"

text \<open>The arena of 300 bytes after a second \<^verbatim>\<open>Allocate(16, 8)\<close>,\<close>

definition arena_300_AB :: allocator where
  "arena_300_AB =
     \<lparr>m_size = 300, m_usedBytes = 96, m_numAllocations = 2,
      m_start = 0x1000, m_freeBlocks = 0x1060,
      mem = store32 (store64 (store64 (store64 (store32 (mem arena_300_A) 0x1060 204)
            0x1068 0) 0x1070 0) 0x1038 16) 0x1030 48\<rparr>"

text \<open>the payload of the first allocation then filled with \<^verbatim>\<open>0xFF\<close>,\<close>

definition arena_300_AB_written :: allocator where
  "arena_300_AB_written = arena_300_AB\<lparr>mem := store_bytes (mem arena_300_AB) 0x1010 (replicate 16 0xFF)\<rparr>"

text \<open>and the first allocation freed.\<close>

definition arena_300_B :: allocator where
  "arena_300_B =
     \<lparr>m_size = 300, m_usedBytes = 48, m_numAllocations = 1,
      m_start = 0x1000, m_freeBlocks = 0x1000,
      mem = ZeroedAddresses (store64 (store64 (store64 (store32 (mem arena_300_AB_written)
            0x1000 48) 0x1008 0x1060) 0x1010 0) 0x1070 0x1000) 0x2060 0x1030\<rparr>"

text \<open>The arena of 300 bytes after a third \<^verbatim>\<open>Allocate(16, 8)\<close>,\<close>

definition arena_300_ABC :: allocator where
  "arena_300_ABC =
     \<lparr>m_size = 300, m_usedBytes = 144, m_numAllocations = 3,
      m_start = 0x1000, m_freeBlocks = 0x1090,
      mem = store32 (store64 (store64 (store64 (store32 (mem arena_300_AB) 0x1090 156)
            0x1098 0) 0x10A0 0) 0x1068 16) 0x1060 48\<rparr>"

text \<open>after the third allocation is freed,\<close>

definition arena_300_AB_C :: allocator where
  "arena_300_AB_C =
     \<lparr>m_size = 300, m_usedBytes = 96, m_numAllocations = 2,
      m_start = 0x1000, m_freeBlocks = 0x1060,
      mem = ZeroedAddresses (store64 (store32 (store64 (store64 (store32 (mem arena_300_ABC) 0x1060 48) 0x1068 0x1090) 0x1070 0) 0x1060 204) 0x1068 0) 0x1060
            0x1090\<rparr>"

text \<open>then the second,\<close>

definition arena_300_A_BC :: allocator where
  "arena_300_A_BC =
     \<lparr>m_size = 300, m_usedBytes = 48, m_numAllocations = 1,
      m_start = 0x1000, m_freeBlocks = 0x1030,
      mem = ZeroedAddresses (store64 (store32 (store64 (store64 (store32 (mem arena_300_AB_C) 0x1030 48) 0x1038 0x1060) 0x1040 0) 0x1030 48) 0x1038 0) 0x1030
            0x1060\<rparr>"

text \<open>then the first.\<close>

definition arena_300_ABC_freed :: allocator where
  "arena_300_ABC_freed =
     \<lparr>m_size = 300, m_usedBytes = 0, m_numAllocations = 0,
      m_start = 0x1000, m_freeBlocks = 0x1000,
      mem = ZeroedAddresses (store64 (store32 (store64 (store64 (store32 (mem arena_300_A_BC) 0x1000 48) 0x1008 0x1030) 0x1010 0) 0x1000 48) 0x1008 0) 0x1000
            0x1030\<rparr>"

text \<open>An arena of 160 bytes, which three allocations of 16 bytes use up,\<close>

definition arena_160 :: allocator where
  "arena_160 =
     \<lparr>m_size = 160, m_usedBytes = 0, m_numAllocations = 0,
      m_start = 0x1000, m_freeBlocks = 0x1000,
      mem = store64 (store64 (store32 junk 0x1000 160) 0x1008 0) 0x1010 0\<rparr>"

text \<open>after the first \<^verbatim>\<open>Allocate(16, 8)\<close>,\<close>

definition arena_160_A :: allocator where
  "arena_160_A =
     \<lparr>m_size = 160, m_usedBytes = 48, m_numAllocations = 1,
      m_start = 0x1000, m_freeBlocks = 0x1030,
      mem = store32 (store64 (store64 (store64 (store32 (mem arena_160) 0x1030 112) 0x1038
            0) 0x1040 0) 0x1008 16) 0x1000 48\<rparr>"

text \<open>the second,\<close>

definition arena_160_AB :: allocator where
  "arena_160_AB =
     \<lparr>m_size = 160, m_usedBytes = 96, m_numAllocations = 2,
      m_start = 0x1000, m_freeBlocks = 0x1060,
      mem = store32 (store64 (store64 (store64 (store32 (mem arena_160_A) 0x1060 64)
            0x1068 0) 0x1070 0) 0x1038 16) 0x1030 48\<rparr>"

text \<open>and the third;\<close>

definition arena_160_ABC :: allocator where
  "arena_160_ABC =
     \<lparr>m_size = 160, m_usedBytes = 160, m_numAllocations = 3,
      m_start = 0x1000, m_freeBlocks = 0,
      mem = store32 (store64 (mem arena_160_AB) 0x1068 16) 0x1060 64\<rparr>"

text \<open>after the second allocation is freed,\<close>

definition arena_160_AC :: allocator where
  "arena_160_AC =
     \<lparr>m_size = 160, m_usedBytes = 112, m_numAllocations = 2,
      m_start = 0x1000, m_freeBlocks = 0x1030,
      mem = ZeroedAddresses (store64 (store64 (store32 (mem arena_160_ABC) 0x1030 48)
            0x1038 0) 0x1040 0) 0x1030 0x1060\<rparr>"

text \<open>then the first,\<close>

definition arena_160_C :: allocator where
  "arena_160_C =
     \<lparr>m_size = 160, m_usedBytes = 64, m_numAllocations = 1,
      m_start = 0x1000, m_freeBlocks = 0x1000,
      mem = ZeroedAddresses (store64 (store32 (store64 (store64 (store32 (mem arena_160_AC) 0x1000 48) 0x1008 0x1030) 0x1010 0) 0x1000 48) 0x1008 0) 0x1000
            0x1030\<rparr>"

text \<open>then the third.\<close>

definition arena_160_freed :: allocator where
  "arena_160_freed =
     \<lparr>m_size = 160, m_usedBytes = 0, m_numAllocations = 0,
      m_start = 0x1000, m_freeBlocks = 0x1000,
      mem = ZeroedAddresses (store64 (store64 (store64 (store32 (mem arena_160_C) 0x1060
            64) 0x1068 0) 0x1070 0x1000) 0x1008 0x1060) 0x1060 0x10A0\<rparr>"

text \<open>The arena of 300 bytes after \<^verbatim>\<open>Allocate(40, 8)\<close>,\<close>

definition arena_300_P :: allocator where
  "arena_300_P =
     \<lparr>m_size = 300, m_usedBytes = 72, m_numAllocations = 1,
      m_start = 0x1000, m_freeBlocks = 0x1048,
      mem = store32 (store64 (store64 (store64 (store32 (mem arena_300) 0x1048 228) 0x1050
            0) 0x1058 0) 0x1008 16) 0x1000 72\<rparr>"

text \<open>\<^verbatim>\<open>Allocate(8, 8)\<close>,\<close>

definition arena_300_PQ :: allocator where
  "arena_300_PQ =
     \<lparr>m_size = 300, m_usedBytes = 112, m_numAllocations = 2,
      m_start = 0x1000, m_freeBlocks = 0x1070,
      mem = store32 (store64 (store64 (store64 (store32 (mem arena_300_P) 0x1070 188)
            0x1078 0) 0x1080 0) 0x1050 16) 0x1048 40\<rparr>"

text \<open>the first allocation freed,\<close>

definition arena_300_Q :: allocator where
  "arena_300_Q =
     \<lparr>m_size = 300, m_usedBytes = 40, m_numAllocations = 1,
      m_start = 0x1000, m_freeBlocks = 0x1000,
      mem = ZeroedAddresses (store64 (store64 (store64 (store32 (mem arena_300_PQ) 0x1000
            72) 0x1008 0x1070) 0x1010 0) 0x1080 0x1000) 0x2070 0x1048\<rparr>"

text \<open>\<^verbatim>\<open>Allocate(17, 8)\<close> in its place,\<close>

definition arena_300_RQ :: allocator where
  "arena_300_RQ =
     \<lparr>m_size = 300, m_usedBytes = 89, m_numAllocations = 2,
      m_start = 0x1000, m_freeBlocks = 0x1031,
      mem = store32 (store64 (store64 (store64 (store64 (store32 (store64 (mem arena_300_Q) 0x1080 0x1000) 0x1031 23) 0x1039 0x1070) 0x1041 0) 0x1080 0x1031)
            0x1008 16) 0x1000 49\<rparr>"

text \<open>the second allocation freed,\<close>

definition arena_300_R :: allocator where
  "arena_300_R =
     \<lparr>m_size = 300, m_usedBytes = 89, m_numAllocations = 1,
      m_start = 0x1000, m_freeBlocks = 0x1031,
      mem = ZeroedAddresses (store64 (store64 (store64 (store32 (store64 (store64 (store32
            (mem arena_300_RQ) 0x1048 0) 0x1050 0x1070) 0x1058 0x1031) 0x1031 23) 0x1039
            0x1070) 0x1080 0x1031) 0x1080 0x1031) 0x20B8 0x1048\<rparr>"

text \<open>and the third.\<close>

definition arena_300_PQR_freed :: allocator where
  "arena_300_PQR_freed =
     \<lparr>m_size = 300, m_usedBytes = 40, m_numAllocations = 0,
      m_start = 0x1000, m_freeBlocks = 0x1000,
      mem = ZeroedAddresses (store64 (store64 (store32 (store64 (store64 (store32 (mem arena_300_R) 0x1000 49) 0x1008 0x1031) 0x1010 0) 0x1000 72) 0x1008 0x1070)
            0x1080 0x1000) 0x2070 0x1031\<rparr>"

text \<open>An arena of 2 GiB and 4 KiB,\<close>

definition arena_2G4K :: allocator where
  "arena_2G4K =
     \<lparr>m_size = 0x80001000, m_usedBytes = 0, m_numAllocations = 0,
      m_start = 0x1000, m_freeBlocks = 0x1000,
      mem = store64 (store64 (store32 junk 0x1000 0x80001000) 0x1008 0) 0x1010 0\<rparr>"

text \<open>after \<^verbatim>\<open>Allocate(16, 8)\<close>,\<close>

definition arena_2G4K_A :: allocator where
  "arena_2G4K_A =
     \<lparr>m_size = 0x80001000, m_usedBytes = 48, m_numAllocations = 1,
      m_start = 0x1000, m_freeBlocks = 0x1030,
      mem = store32 (store64 (store64 (store64 (store32 (mem arena_2G4K) 0x1030
            0x80000FD0) 0x1038 0) 0x1040 0) 0x1008 16) 0x1000 48\<rparr>"

text \<open>a second \<^verbatim>\<open>Allocate(16, 8)\<close>,\<close>

definition arena_2G4K_AB :: allocator where
  "arena_2G4K_AB =
     \<lparr>m_size = 0x80001000, m_usedBytes = 96, m_numAllocations = 2,
      m_start = 0x1000, m_freeBlocks = 0x1060,
      mem = store32 (store64 (store64 (store64 (store32 (mem arena_2G4K_A) 0x1060
            0x80000FA0) 0x1068 0) 0x1070 0) 0x1038 16) 0x1030 48\<rparr>"

text \<open>the first allocation freed,\<close>

definition arena_2G4K_B :: allocator where
  "arena_2G4K_B =
     \<lparr>m_size = 0x80001000, m_usedBytes = 48, m_numAllocations = 1,
      m_start = 0x1000, m_freeBlocks = 0x1000,
      mem = ZeroedAddresses (store64 (store64 (store64 (store32 (mem arena_2G4K_AB) 0x1000
            48) 0x1008 0x1060) 0x1010 0) 0x1070 0x1000) 0x2060 0x1030\<rparr>"

text \<open>and \<^verbatim>\<open>Allocate(8, 8)\<close>.\<close>

definition arena_2G4K_B_8 :: allocator where
  "arena_2G4K_B_8 =
     \<lparr>m_size = 0x80001000, m_usedBytes = 88, m_numAllocations = 2,
      m_start = 0x1000, m_freeBlocks = 0x1000,
      mem = store32 (store64 (store64 (store64 (store64 (store32 (store64 (store64 (mem arena_2G4K_B) 0x1070 0x1000) 0x1008 0x1060) 0x1088 0x80000F78) 0x1090 0) 0x1098
            0x1000) 0x1008 0x1088) 0x1068 16) 0x1060 40\<rparr>"

section \<open>Loads and stores\<close>

lemma bit_le_word:
  "bit (le_word bs :: 'a::len word) n \<longleftrightarrow>
     n < LENGTH('a) \<and> n div 8 < length bs \<and> bit (bs ! (n div 8)) (n mod 8)"
  using bit_horner_sum_uint_exp_iff [where ?'a = 8, of bs n]
  by (simp add: le_word_def bit_word_of_int_iff)

lemma le_word_le_bytes:
  "8 * n = LENGTH('a) \<Longrightarrow> le_word (le_bytes n (w :: 'a::len word)) = w"
  by (rule bit_eqI) (auto simp: bit_le_word le_bytes_def bit_simps dest: bit_imp_le_length)

lemma length_le_bytes [simp]: "length (le_bytes n w) = n"
  by (simp add: le_bytes_def)

lemma length_load_bytes [simp]: "length (load_bytes m a n) = n"
  by (simp add: load_bytes_def)

lemma le_bytes_le_word:
  "length bs = n \<Longrightarrow> 8 * n \<le> LENGTH('a) \<Longrightarrow> le_bytes n (le_word bs :: 'a::len word) = bs"
  apply (rule nth_equalityI)
   apply simp
  apply (rule bit_eqI)
  apply (auto simp: bit_le_word le_bytes_def bit_simps dest: bit_imp_le_length)
  done

lemma unat_of_nat_length_le: "unat (of_nat n :: 64 word) \<le> n"
  by (simp add: unat_of_nat)

lemma store_bytes_other:
  "length bs \<le> unat (x - a) \<Longrightarrow> store_bytes m a bs x = m x"
  using unat_of_nat_length_le [of "length bs"]
  by (simp add: store_bytes_def word_less_nat_alt)

lemma store_bytes_inside:
  "i < length bs \<Longrightarrow> length bs < 2 ^ 64 \<Longrightarrow> store_bytes m a bs (a + of_nat i) = bs ! i"
  by (simp add: store_bytes_def word_less_nat_alt unat_of_nat)

lemma load_bytes_store_bytes_same:
  "length bs < 2 ^ 64 \<Longrightarrow> load_bytes (store_bytes m a bs) a (length bs) = bs"
  by (rule nth_equalityI) (simp_all add: load_bytes_def store_bytes_inside)

lemma unat_sub_add_ge_word:
  fixes a b w :: "64 word"
  assumes "k \<le> unat (b - a)" and "unat w < unat (a - b)"
  shows "k \<le> unat (b + w - a)"
proof -
  have "unat a < 2 ^ 64" "unat b < 2 ^ 64" "unat w < 2 ^ 64"
    using unsigned_less [of a, where ?'a = nat] unsigned_less [of b, where ?'a = nat]
      unsigned_less [of w, where ?'a = nat] by simp_all
  with assms show ?thesis
    unfolding unat_sub_if_size unat_plus_if_size word_size
    by (simp split: if_splits) arith+
qed

lemma unat_sub_add_ge:
  fixes a b :: "64 word"
  assumes "k \<le> unat (b - a)" and "n \<le> unat (a - b)" and "i < n"
  shows "k \<le> unat (b + of_nat i - a)"
proof -
  have "i < 2 ^ 64" using assms(2,3) unsigned_less [of "a - b", where ?'a = nat] by simp
  then have "unat (of_nat i :: 64 word) = i" by (simp add: unat_of_nat)
  with assms show ?thesis by (intro unat_sub_add_ge_word) simp_all
qed

lemma load_bytes_store_bytes_disj:
  assumes "length bs \<le> unat (b - a)" and "n \<le> unat (a - b)"
  shows "load_bytes (store_bytes m a bs) b n = load_bytes m b n"
  unfolding load_bytes_def
  by (rule map_cong [OF refl]) (simp add: store_bytes_other unat_sub_add_ge [OF assms])


lemma store_bytes_load_bytes_id:
  "n < 2 ^ 64 \<Longrightarrow> store_bytes m a (load_bytes m a n) = m"
  by (rule ext) (simp add: store_bytes_def load_bytes_def word_less_nat_alt unat_of_nat)

lemma load64_store64_same [simp]: "load64 (store64 m a v) a = v"
  using load_bytes_store_bytes_same [of "le_bytes 8 v" m a]
  by (simp add: load64_def store64_def le_word_le_bytes)

lemma load32_store32_same [simp]: "load32 (store32 m a v) a = v"
  using load_bytes_store_bytes_same [of "le_bytes 4 v" m a]
  by (simp add: load32_def store32_def le_word_le_bytes)

lemma store64_load64_id [simp]: "store64 m a (load64 m a) = m"
  by (simp add: load64_def store64_def le_bytes_le_word store_bytes_load_bytes_id)

lemma store32_load32_id [simp]: "store32 m a (load32 m a) = m"
  by (simp add: load32_def store32_def le_bytes_le_word store_bytes_load_bytes_id)

lemma load64_store64_disj:
  "8 \<le> unat (b - a) \<Longrightarrow> 8 \<le> unat (a - b) \<Longrightarrow> load64 (store64 m a v) b = load64 m b"
  by (simp add: load64_def store64_def load_bytes_store_bytes_disj)

lemma load64_store32_disj:
  "4 \<le> unat (b - a) \<Longrightarrow> 8 \<le> unat (a - b) \<Longrightarrow> load64 (store32 m a v) b = load64 m b"
  by (simp add: load64_def store32_def load_bytes_store_bytes_disj)

lemma load32_store64_disj:
  "8 \<le> unat (b - a) \<Longrightarrow> 4 \<le> unat (a - b) \<Longrightarrow> load32 (store64 m a v) b = load32 m b"
  by (simp add: load32_def store64_def load_bytes_store_bytes_disj)

lemma load32_store32_disj:
  "4 \<le> unat (b - a) \<Longrightarrow> 4 \<le> unat (a - b) \<Longrightarrow> load32 (store32 m a v) b = load32 m b"
  by (simp add: load32_def store32_def load_bytes_store_bytes_disj)

section \<open>Fields of the records\<close>

lemma fb_next_set_fb_prev [simp]: "fb_next (set_fb_prev m b v) b = fb_next m b"
  by (simp add: fb_next_def set_fb_prev_def load64_store64_disj)

lemma fb_prev_set_fb_next [simp]: "fb_prev (set_fb_next m b v) b = fb_prev m b"
  by (simp add: fb_prev_def set_fb_next_def load64_store64_disj)

lemma fb_size_set_fb_next [simp]: "fb_size (set_fb_next m b v) b = fb_size m b"
  by (simp add: fb_size_def set_fb_next_def load32_store64_disj)

lemma fb_size_set_fb_prev [simp]: "fb_size (set_fb_prev m b v) b = fb_size m b"
  by (simp add: fb_size_def set_fb_prev_def load32_store64_disj)

lemma fb_next_set_fb_size [simp]: "fb_next (set_fb_size m b v) b = fb_next m b"
  by (simp add: fb_next_def set_fb_size_def load64_store32_disj)

lemma fb_prev_set_fb_size [simp]: "fb_prev (set_fb_size m b v) b = fb_prev m b"
  by (simp add: fb_prev_def set_fb_size_def load64_store32_disj)

lemma fb_size_set_fb_size [simp]: "fb_size (set_fb_size m b v) b = v"
  by (simp add: fb_size_def set_fb_size_def)

lemma fb_next_set_fb_next [simp]: "fb_next (set_fb_next m b v) b = v"
  by (simp add: fb_next_def set_fb_next_def)

lemma fb_prev_set_fb_prev [simp]: "fb_prev (set_fb_prev m b v) b = v"
  by (simp add: fb_prev_def set_fb_prev_def)

lemma fb_size_put_same [simp]: "fb_size (put_FreeBlock m b sz nx pv) b = sz"
  by (simp add: put_FreeBlock_def)
lemma fb_next_put_same [simp]: "fb_next (put_FreeBlock m b sz nx pv) b = nx"
  by (simp add: put_FreeBlock_def)
lemma fb_prev_put_same [simp]: "fb_prev (put_FreeBlock m b sz nx pv) b = pv"
  by (simp add: put_FreeBlock_def)

lemma far_apart:
  fixes b c i j :: "64 word"
  assumes "24 \<le> unat (c - b)" and "24 \<le> unat (b - c)" and "unat i \<le> 16" and "unat j \<le> 16"
  shows "8 \<le> unat (c + j - (b + i))"
proof -
  define d where "d = c - b"
  have eq: "c + j - (b + i) = d + j - i" "b - c = 0 - d"
    by (simp_all add: d_def)
  have "unat d < 2 ^ 64"
    using unsigned_less [of d, where ?'a = nat] by simp
  with assms show ?thesis
    unfolding eq d_def [symmetric] unat_sub_if_size unat_plus_if_size word_size
    by (simp split: if_splits) arith
qed

lemma far_apart_insts:
  fixes b c :: "64 word"
  assumes "24 \<le> unat (c - b)" and "24 \<le> unat (b - c)"
  shows "8 \<le> unat (c - b)" "8 \<le> unat (c - (b + 8))" "8 \<le> unat (c - (b + 16))"
    "8 \<le> unat (c + 8 - b)" "8 \<le> unat (c + 8 - (b + 8))" "8 \<le> unat (c + 8 - (b + 16))"
    "8 \<le> unat (c + 16 - b)" "8 \<le> unat (c + 16 - (b + 8))" "8 \<le> unat (c + 16 - (b + 16))"
  using far_apart [OF assms, of 0 0] far_apart [OF assms, of 8 0] far_apart [OF assms, of 16 0]
    far_apart [OF assms, of 0 8] far_apart [OF assms, of 8 8] far_apart [OF assms, of 16 8]
    far_apart [OF assms, of 0 16] far_apart [OF assms, of 8 16] far_apart [OF assms, of 16 16]
  by simp_all

lemma le_8_4: "8 \<le> n \<Longrightarrow> 4 \<le> (n :: nat)"
  by simp

text \<open>Writing a field of a block leaves the fields of a block 24 bytes away alone.\<close>

lemma fb_fields_other:
  assumes "24 \<le> unat (c - b)" and "24 \<le> unat (b - c)"
  shows "fb_size (set_fb_size m b s) c = fb_size m c"
    and "fb_size (set_fb_next m b v) c = fb_size m c"
    and "fb_size (set_fb_prev m b v) c = fb_size m c"
    and "fb_next (set_fb_size m b s) c = fb_next m c"
    and "fb_next (set_fb_next m b v) c = fb_next m c"
    and "fb_next (set_fb_prev m b v) c = fb_next m c"
    and "fb_prev (set_fb_size m b s) c = fb_prev m c"
    and "fb_prev (set_fb_next m b v) c = fb_prev m c"
    and "fb_prev (set_fb_prev m b v) c = fb_prev m c"
proof -
  note d = far_apart_insts [OF assms] far_apart_insts [OF assms(2,1)]
  note d4 = d [THEN le_8_4]
  note defs = fb_size_def fb_next_def fb_prev_def set_fb_size_def set_fb_next_def set_fb_prev_def
  note rules = load32_store32_disj load32_store64_disj load64_store32_disj load64_store64_disj
  show "fb_size (set_fb_size m b s) c = fb_size m c" by (simp only: defs rules d d4)
  show "fb_size (set_fb_next m b v) c = fb_size m c" by (simp only: defs rules d d4)
  show "fb_size (set_fb_prev m b v) c = fb_size m c" by (simp only: defs rules d d4)
  show "fb_next (set_fb_size m b s) c = fb_next m c" by (simp only: defs rules d d4)
  show "fb_next (set_fb_next m b v) c = fb_next m c" by (simp only: defs rules d d4)
  show "fb_next (set_fb_prev m b v) c = fb_next m c" by (simp only: defs rules d d4)
  show "fb_prev (set_fb_size m b s) c = fb_prev m c" by (simp only: defs rules d d4)
  show "fb_prev (set_fb_next m b v) c = fb_prev m c" by (simp only: defs rules d d4)
  show "fb_prev (set_fb_prev m b v) c = fb_prev m c" by (simp only: defs rules d d4)
qed

lemma put_FreeBlock_other:
  assumes "24 \<le> unat (c - b)" and "24 \<le> unat (b - c)"
  shows "fb_size (put_FreeBlock m b sz nx pv) c = fb_size m c"
    and "fb_next (put_FreeBlock m b sz nx pv) c = fb_next m c"
    and "fb_prev (put_FreeBlock m b sz nx pv) c = fb_prev m c"
  by (simp_all only: put_FreeBlock_def fb_fields_other [OF assms])

lemma fx_fields:
  "fb_size (mem sizes_50_200_100) 0x1000 = 50"
  "fb_size (mem sizes_50_200_100) 0x2000 = 200"
  "fb_size (mem sizes_50_200_100) 0x3000 = 100"
  "fb_next (mem sizes_50_200_100) 0x1000 = 0x2000"
  "fb_next (mem sizes_50_200_100) 0x2000 = 0x3000"
  "fb_next (mem sizes_50_200_100) 0x3000 = 0"
  "fb_prev (mem sizes_50_200_100) 0x1000 = 0"
  "fb_prev (mem sizes_50_200_100) 0x2000 = 0x1000"
  "fb_prev (mem sizes_50_200_100) 0x3000 = 0x2000"
  "m_freeBlocks sizes_50_200_100 = 0x1000"
  by (simp_all add: sizes_50_200_100_def put_FreeBlock_other)

lemma fx_align:
  "align_forward_adjustment_with_header sizeof_AllocationHeader 0x1000 8 = Inr 16"
  "align_forward_adjustment_with_header sizeof_AllocationHeader 0x2000 8 = Inr 16"
  "align_forward_adjustment_with_header sizeof_AllocationHeader 0x3000 8 = Inr 16"
  by (simp_all add: align_forward_adjustment_with_header_def sizeof_AllocationHeader_def Let_def)

section \<open>Alignment arithmetic\<close>

lemma and_not_mask_eq_minus:
  fixes x :: "64 word"
  shows "x AND NOT (mask k) = x - (x AND mask k)"
  by (metis (no_types, lifting) and.commute and.right_idem
    bit.conj_cancel_left bit.conj_xor_distrib2 bit.xor_compl_right
    diff_0_right disjunctive_and_not_eq_xor disjunctive_diff_eq_and_not
    mask_0 mask_1 word_and_not word_bw_lcs(1) word_not_not)

lemma unat_and_mask: 
  fixes x :: "64 word"
  shows "unat (x AND mask k) = unat x mod 2 ^ k"
proof -
  have "x AND mask k = take_bit k x" by (simp add: take_bit_eq_mask)
  then have "unat (x AND mask k) = take_bit k (unat x)" by (simp only: unsigned_take_bit_eq)
  then show ?thesis by (simp only: take_bit_eq_mod)
qed

lemma unat_2p: "k < 64 \<Longrightarrow> unat (2 ^ k :: 64 word) = 2 ^ k"
proof -
  assume "k < 64"
  then have "(2::nat) ^ k < 2 ^ 64" by (intro power_strict_increasing) simp_all
  moreover have "(2 ^ k :: 64 word) = of_nat (2 ^ k)" by simp
  ultimately show ?thesis by (simp only: unat_of_nat) simp
qed

text \<open>The first padding: up to the next multiple of the alignment.\<close>

lemma align_first:
  fixes p :: "64 word"
  assumes "k < 64"
  defines "a0 \<equiv> ((p + (2 ^ k - 1)) AND NOT (2 ^ k - 1)) - p"
  shows "unat a0 < 2 ^ k" and "(unat p + unat a0) mod 2 ^ k = 0"
proof -
  let ?x = "p + (2 ^ k - 1)"
  have m: "(2 ^ k - 1 :: 64 word) = mask k" by (simp add: mask_eq_decr_exp)
  have a0: "a0 = mask k - (?x AND mask k)"
    unfolding a0_def m and_not_mask_eq_minus by simp
  have le: "?x AND mask k \<le> mask k" by (simp add: word_and_le1)
  have um: "unat (mask k :: 64 word) = 2 ^ k - 1"
    using assms(1) unat_2p [of k] by (simp add: mask_eq_decr_exp unat_sub word_le_nat_alt)
  have ua0: "unat a0 = (2 ^ k - 1) - unat ?x mod 2 ^ k"
    unfolding a0 using le by (simp add: unat_sub um unat_and_mask)
  show "unat a0 < 2 ^ k" unfolding ua0 by (simp add: less_imp_diff_less)
  have ux: "unat ?x mod 2 ^ k = (unat p + (2 ^ k - 1)) mod 2 ^ k"
  proof -
    have "unat (p + mask k) = (unat p + unat (mask k :: 64 word)) mod 2 ^ 64"
      by (simp only: unat_word_ariths) simp
    then have "unat ?x = (unat p + (2 ^ k - 1)) mod 2 ^ 64"
      by (simp only: m um)
    moreover have "(2::nat) ^ k dvd 2 ^ 64" using assms(1) by (intro le_imp_power_dvd) simp
    ultimately show ?thesis by (simp add: mod_mod_cancel)
  qed
  define r where "r = (unat p + (2 ^ k - 1)) mod 2 ^ k"
  have r: "r < 2 ^ k" by (simp add: r_def)
  have "unat p + (2 ^ k - 1) = 2 ^ k * ((unat p + (2 ^ k - 1)) div 2 ^ k) + r"
    by (simp add: r_def)
  then have "unat p + ((2 ^ k - 1) - r) = 2 ^ k * ((unat p + (2 ^ k - 1)) div 2 ^ k)"
    using r by linarith
  then have "(unat p + ((2 ^ k - 1) - r)) mod 2 ^ k = 0" by simp
  then show "(unat p + unat a0) mod 2 ^ k = 0"
    by (simp only: ua0 ux r_def)
qed


lemma ceil_mult_ge:
  fixes A x :: nat
  assumes "0 < A"
  shows "x \<le> A * ((x + A - 1) div A)"
proof -
  have "x + A - 1 = A * ((x + A - 1) div A) + (x + A - 1) mod A" by simp
  moreover have "(x + A - 1) mod A < A" using assms by simp
  ultimately show ?thesis by linarith
qed

lemma ceil_least:
  fixes A x t :: nat
  assumes "0 < A" and "x \<le> A * t"
  shows "(x + A - 1) div A \<le> t"
proof -
  have "(x + A - 1) div A \<le> ((A - 1) + A * t) div A"
    using assms by (intro div_le_mono) simp
  also have "\<dots> = t + (A - 1) div A"
    using assms(1) by (subst div_mult_self2) simp_all
  also have "\<dots> = t" using assms(1) by simp
  finally show ?thesis .
qed

lemma mod_add_cancel_nat:
  fixes P D n A :: nat
  assumes "(P + D) mod A = 0" and "(P + n) mod A = 0" and "n < A"
  shows "D mod A = n"
proof -
  have A: "0 < A" using assms(3) by simp
  define p d where "p = P mod A" and "d = D mod A"
  have b: "p < A" "d < A" using A by (simp_all add: p_def d_def)
  have "(p + d) mod A = 0" using assms(1) by (simp add: p_def d_def mod_add_eq)
  then obtain q where q: "p + d = A * q" by (auto simp: mod_eq_0_iff_dvd dvd_def)
  have "(p + n) mod A = 0" using assms(2) by (simp add: p_def mod_add_left_eq)
  then obtain q' where q': "p + n = A * q'" by (auto simp: mod_eq_0_iff_dvd dvd_def)
  have small: "t < 2" if "A * t < A + A" for t
  proof (rule ccontr)
    assume "\<not> t < 2"
    then have "A * 2 \<le> A * t" by (intro mult_le_mono2) simp
    with that show False by simp
  qed
  have "A * q < A + A" using q b by linarith
  then have "q < 2" by (rule small)
  have "A * q' < A + A" using q' b assms(3) by linarith
  then have "q' < 2" by (rule small)
  consider "q = 0" "q' = 0" | "q = 0" "q' = 1" | "q = 1" "q' = 0" | "q = 1" "q' = 1"
    using \<open>q < 2\<close> \<open>q' < 2\<close> by linarith
  then have "d = n"
    using q q' b assms(3) by cases simp_all
  then show ?thesis by (simp add: d_def)
qed

lemma padded_mod: "(P + n0) mod A = 0 \<Longrightarrow> (P + padded r A n0) mod A = 0"
  by (simp add: padded_def add.assoc [symmetric])

lemma padded_ge: "0 < A \<Longrightarrow> r \<le> padded r A n0"
  using ceil_mult_ge [of A "r - n0"] unfolding padded_def by (cases "n0 < r") simp_all

lemma padded_least:
  assumes "0 < A" and "n0 < A" and "(P + n0) mod A = 0" and "r \<le> D" and "(P + D) mod A = 0"
  shows "padded r A n0 \<le> D"
proof -
  have dm: "D mod A = n0" by (rule mod_add_cancel_nat [OF assms(5,3,2)])
  then have D: "D = A * (D div A) + n0" by (metis mult_div_mod_eq)
  show ?thesis
  proof (cases "n0 < r")
    case True
    with D assms(4) have "r - n0 \<le> A * (D div A)" by linarith
    from ceil_least [OF assms(1) this] have "A * ((r - n0 + A - 1) div A) \<le> A * (D div A)"
      by simp
    then have "n0 + A * ((r - n0 + A - 1) div A) \<le> A * (D div A) + n0" by simp
    with D True show ?thesis unfolding padded_def by simp
  next
    case False
    with D show ?thesis by (simp add: padded_def)
  qed
qed


lemma align_unat:
  fixes p :: "64 word"
  assumes k: "k < 64"
  defines "a0 \<equiv> ((p + (2 ^ k - 1)) AND NOT (2 ^ k - 1)) - p"
  shows "\<exists>adj. align_forward_adjustment_with_header sizeof_AllocationHeader p (2 ^ k) = Inr adj
           \<and> unat adj = padded 16 (2 ^ k) (unat a0)"
proof (cases "a0 < 16")
  case False
  then have "\<not> unat a0 < 16" by (simp add: word_less_nat_alt)
  moreover have "align_forward_adjustment_with_header sizeof_AllocationHeader p (2 ^ k) = Inr a0"
    unfolding align_forward_adjustment_with_header_def sizeof_AllocationHeader_def Let_def
    unfolding a0_def [symmetric]
    using False by simp
  ultimately show ?thesis by (simp add: padded_def)
next
  case True
  define A where "A = (2 ^ k :: 64 word)"
  have uA: "unat A = 2 ^ k" unfolding A_def by (rule unat_2p [OF k])
  have A63: "(2::nat) ^ k \<le> 2 ^ 63" using k by (intro power_increasing) simp_all
  have Apos: "(0::nat) < 2 ^ k" by simp
  have A0: "A \<noteq> 0" using uA Apos by (metis unat_0 less_not_refl)
  define n0 where "n0 = unat a0"
  have n0: "n0 < 16" using True by (simp add: n0_def word_less_nat_alt)
  have u1: "unat (16 - a0) = 16 - n0"
    using True by (simp add: unat_sub word_le_nat_alt word_less_nat_alt n0_def)
  have "unat (16 - a0) + unat A < 2 ^ LENGTH(64)"
    unfolding u1 uA using A63 by simp
  from unat_add_lem [THEN iffD1, OF this]
  have u2: "unat (16 - a0 + A) = 16 - n0 + 2 ^ k"
    unfolding u1 uA .
  have "(1::nat) \<le> 16 - n0 + 2 ^ k" using one_le_power [of "2::nat" k] by linarith
  then have "1 \<le> 16 - a0 + A" unfolding word_le_nat_alt u2 unat_1 .
  from unat_sub [OF this] have u3: "unat (16 - a0 + A - 1) = 16 - n0 + 2 ^ k - 1"
    unfolding u2 unat_1 .
  define Q where "Q = (16 - n0 + 2 ^ k - 1) div (2 ^ k :: nat)"
  have u4: "unat ((16 - a0 + A - 1) div A) = Q"
    by (simp only: unat_div u3 uA Q_def)
  have Qb: "2 ^ k * Q \<le> 16 - n0 + 2 ^ k - 1" unfolding Q_def by simp
  have "unat A * unat ((16 - a0 + A - 1) div A) < 2 ^ LENGTH(64)"
    unfolding u4 uA using Qb A63 n0 by simp
  from unat_mult_lem [THEN iffD1, OF this]
  have u5: "unat (A * ((16 - a0 + A - 1) div A)) = 2 ^ k * Q"
    unfolding u4 uA .
  have "unat a0 + unat (A * ((16 - a0 + A - 1) div A)) < 2 ^ LENGTH(64)"
    unfolding u5 n0_def [symmetric] using Qb A63 n0 by simp
  from unat_add_lem [THEN iffD1, OF this]
  have u6: "unat (a0 + A * ((16 - a0 + A - 1) div A)) = n0 + 2 ^ k * Q"
    unfolding u5 n0_def [symmetric] .
  have "align_forward_adjustment_with_header sizeof_AllocationHeader p (2 ^ k)
          = Inr (a0 + A * ((16 - a0 + A - 1) div A))"
    unfolding align_forward_adjustment_with_header_def sizeof_AllocationHeader_def Let_def
      A_def [symmetric]
    unfolding a0_def [unfolded A_def [symmetric], symmetric]
    using True A0 by simp
  moreover have "n0 + 2 ^ k * Q = padded 16 (2 ^ k) n0"
    using n0 by (simp add: padded_def Q_def)
  ultimately show ?thesis using u6 by (simp add: n0_def)
qed

lemma word_add_mod_2p_iff:
  fixes p d :: "64 word"
  assumes "k < 64"
  shows "(p + d) mod 2 ^ k = 0 \<longleftrightarrow> (unat p + unat d) mod 2 ^ k = 0"
proof -
  have dvd: "(2::nat) ^ k dvd 2 ^ 64" using assms by (intro le_imp_power_dvd) simp
  have "unat ((p + d) mod 2 ^ k) = unat (p + d) mod 2 ^ k"
    by (simp only: unat_mod unat_2p [OF assms])
  also have "\<dots> = ((unat p + unat d) mod 2 ^ 64) mod 2 ^ k"
    by (simp only: unat_word_ariths) simp
  also have "\<dots> = (unat p + unat d) mod 2 ^ k"
    by (rule mod_mod_cancel [OF dvd])
  finally show ?thesis by (simp only: unat_eq_0 [symmetric])
qed

lemma align_adjustment_props:
  fixes p :: "64 word"
  assumes k: "k < 64"
  shows "\<exists>adjustment.
           align_forward_adjustment_with_header sizeof_AllocationHeader p (2 ^ k) = Inr adjustment
         \<and> (p + adjustment) mod 2 ^ k = 0
         \<and> sizeof_AllocationHeader \<le> adjustment
         \<and> (\<forall>d. sizeof_AllocationHeader \<le> d \<and> (p + d) mod 2 ^ k = 0 \<longrightarrow> adjustment \<le> d)"
proof -
  let ?a0 = "((p + (2 ^ k - 1)) AND NOT (2 ^ k - 1)) - p"
  from align_unat [OF k, of p] obtain adj where
    adj: "align_forward_adjustment_with_header sizeof_AllocationHeader p (2 ^ k) = Inr adj"
    and u: "unat adj = padded 16 (2 ^ k) (unat ?a0)"
    by (elim exE conjE)
  note n0 = align_first [OF k, of p]
  have pos: "(0::nat) < 2 ^ k" by simp
  have "(unat p + padded 16 (2 ^ k) (unat ?a0)) mod 2 ^ k = 0"
    by (rule padded_mod [OF n0(2)])
  then have 1: "(p + adj) mod 2 ^ k = 0"
    by (simp only: word_add_mod_2p_iff [OF k] u)
  have "16 \<le> padded 16 (2 ^ k) (unat ?a0)" by (rule padded_ge [OF pos])
  then have 2: "sizeof_AllocationHeader \<le> adj"
    by (simp only: sizeof_AllocationHeader_def word_le_nat_alt u) simp
  have 3: "adj \<le> d" if "sizeof_AllocationHeader \<le> d" and "(p + d) mod 2 ^ k = 0" for d
  proof -
    from that(1) have a: "16 \<le> unat d" by (simp add: sizeof_AllocationHeader_def word_le_nat_alt)
    from that(2) have b: "(unat p + unat d) mod 2 ^ k = 0"
      by (simp only: word_add_mod_2p_iff [OF k])
    have "padded 16 (2 ^ k) (unat ?a0) \<le> unat d"
      by (rule padded_least [OF pos n0 a b])
    then show ?thesis by (simp only: word_le_nat_alt u)
  qed
  show ?thesis
    apply (rule exI [of _ adj])
    apply (intro conjI allI impI)
       apply (rule adj)
      apply (rule 1)
     apply (rule 2)
    apply (erule conjE)
    apply (erule (1) 3)
    done
qed

section \<open>Evaluation\<close>

text \<open>
  The facts by which the operations are run on a concrete memory: the fields unfold to
  loads and stores, a load reads through the stores to other addresses, and the
  conversion to \<^verbatim>\<open>int\<close> is computed on the numeral.
\<close>

lemmas field_defs =
  fb_size_def fb_next_def fb_prev_def set_fb_size_def set_fb_next_def set_fb_prev_def
  hdr_size_def hdr_adjustment_def set_hdr_size_def set_hdr_adjustment_def

lemmas disj_rules =
  load64_store64_disj load64_store32_disj load32_store64_disj load32_store32_disj

lemma size_t_to_int_eval: "size_t_to_int w = of_nat (unat w mod 2 ^ 32)"
proof -
  have "(of_nat (unat w mod 2 ^ 32) :: 32 word) = of_nat (unat w)"
    unfolding word_of_nat_eq_iff by (simp add: take_bit_eq_mod)
  then show ?thesis by (simp only: of_nat_unat size_t_to_int_def)
qed

lemma int_to_size_t_size_t_to_int:
  assumes "sizeBytes < 2 ^ 31"
  shows "int_to_size_t (size_t_to_int sizeBytes) = sizeBytes"
proof -
  have hi: "\<not> bit sizeBytes n" if "31 \<le> n" for n
    using that assms
    by (metis bit_take_bit_iff less_mask_eq not_less take_bit_eq_mask linorder_not_le)
  show ?thesis
    unfolding int_to_size_t_def size_t_to_int_def
    apply (rule bit_eqI)
    apply (auto simp: bit_simps min_def hi dest: bit_imp_le_length)
    done
qed

lemmas size_defs =
  sizeof_AllocationHeader_def sizeof_FreeBlock_def int_to_size_t_def size_t_to_int_eval

lemmas ctor_defs = FreeListAllocator_ctor_def Allocator_ctor_def

lemmas Allocate_defs = Allocate_def Allocate_split_def Allocate_consume_def
  align_forward_adjustment_with_header_def ptr_add_def

lemmas Free_defs = Free_def Free_coalesce_backward_def Free_coalesce_forward_def
  Free_relink_def ptr_sub_def

lemma ZeroedAddresses_apply:
  "ZeroedAddresses m p z x = (if p \<le> x \<and> x < z then 0 else m x)"
proof (induction m p z arbitrary: x rule: ZeroedAddresses.induct)
  case (1 m p z)
  show ?case
  proof (cases "p < z")
    case True
    have eq: "p + 1 \<le> x \<longleftrightarrow> p < x" using True by unat_arith
    have "ZeroedAddresses m p z x = ZeroedAddresses (m(p := 0)) (p + 1) z x"
      using True by (subst ZeroedAddresses.simps) simp
    also have "\<dots> = (if p + 1 \<le> x \<and> x < z then 0 else (m(p := 0)) x)"
      by (rule 1[OF True])
    also have "\<dots> = (if p \<le> x \<and> x < z then 0 else m x)"
      using True by (auto simp: eq)
    finally show ?thesis .
  next
    case False
    then show ?thesis by (subst ZeroedAddresses.simps) auto
  qed
qed

lemma ctor_arena_300: "FreeListAllocator_ctor 300 0x1000 junk = Inr arena_300"
  by (simp add: ctor_defs field_defs size_defs arena_300_def)

lemma Allocate_arena_300: "Allocate arena_300 16 8 = Some (Inr 0x1010, arena_300_A)"
  by (simp add: arena_300_A_def arena_300_def Allocate_defs Allocate_search.simps field_defs
      size_defs disj_rules Let_def cong: let_weak_cong prod.case_cong_weak)

lemma ctor_arena_2G: "FreeListAllocator_ctor 0x80000040 0x1000 (\<lambda>_. 0) = Inr arena_2G"
  by (simp add: ctor_defs field_defs size_defs arena_2G_def)

section \<open>Reading through \<^verbatim>\<open>ZeroedAddresses\<close> and through overlapping stores\<close>

lemma word_offset_bounds:
  fixes a :: "64 word"
  assumes "a \<le> a + of_nat n" and "n < 2 ^ 64" and "i \<le> n"
  shows "a \<le> a + of_nat i" and "a + of_nat i \<le> a + of_nat n"
proof -
  have n: "unat (of_nat n :: 64 word) = n" and i: "unat (of_nat i :: 64 word) = i"
    using assms(2,3) by (simp_all add: unat_of_nat)
  have a: "unat a < 2 ^ 64" using unsigned_less [of a, where ?'a = nat] by simp
  from assms(1) have "unat a + n < 2 ^ 64"
    unfolding word_le_nat_alt unat_plus_if_size word_size n using a assms(2)
    by (simp split: if_splits)
  with assms(3) show "a \<le> a + of_nat i" and "a + of_nat i \<le> a + of_nat n"
    unfolding word_le_nat_alt unat_plus_if_size word_size n i
    by simp_all
qed

lemma ZeroedAddresses_empty: "\<not> s < e \<Longrightarrow> ZeroedAddresses m s e = m"
  by (subst ZeroedAddresses.simps) simp

lemma load_bytes_ZeroedAddresses_in:
  assumes "s \<le> a" and "a \<le> a + of_nat n" and "a + of_nat n < e" and "n < 2 ^ 64" and "k \<le> Suc n"
  shows "load_bytes (ZeroedAddresses m s e) a k = replicate k 0"
proof -
  have "ZeroedAddresses m s e (a + of_nat i) = 0" if "i < k" for i
  proof -
    from that assms(5) have "i \<le> n" by simp
    from word_offset_bounds [OF assms(2,4) this] assms(1,3)
    have "s \<le> a + of_nat i" and "a + of_nat i < e"
      by simp_all
    then show ?thesis
      by (simp add: ZeroedAddresses_apply)
  qed
  then show ?thesis
    by (intro nth_equalityI) (simp_all add: load_bytes_def)
qed

lemma load_bytes_ZeroedAddresses_out:
  assumes "a \<le> a + of_nat n" and "a + of_nat n < s \<or> e \<le> a" and "n < 2 ^ 64" and "k \<le> Suc n"
  shows "load_bytes (ZeroedAddresses m s e) a k = load_bytes m a k"
proof -
  have "ZeroedAddresses m s e (a + of_nat i) = m (a + of_nat i)" if "i < k" for i
  proof -
    from that assms(4) have "i \<le> n" by simp
    from word_offset_bounds [OF assms(1,3) this] assms(2) show ?thesis
      by (auto simp: ZeroedAddresses_apply)
  qed
  then show ?thesis
    by (intro nth_equalityI) (simp_all add: load_bytes_def)
qed

lemma le_word_zeros: "le_word (replicate k 0) = 0"
  by (rule bit_eqI) (simp add: bit_le_word)

lemma load64_ZeroedAddresses_in:
  "s \<le> a \<Longrightarrow> a \<le> a + 7 \<Longrightarrow> a + 7 < e \<Longrightarrow> load64 (ZeroedAddresses m s e) a = 0"
  using load_bytes_ZeroedAddresses_in [of s a 7 e 8 m]
  by (simp add: load64_def le_word_zeros)

lemma load32_ZeroedAddresses_in:
  "s \<le> a \<Longrightarrow> a \<le> a + 3 \<Longrightarrow> a + 3 < e \<Longrightarrow> load32 (ZeroedAddresses m s e) a = 0"
  using load_bytes_ZeroedAddresses_in [of s a 3 e 4 m]
  by (simp add: load32_def le_word_zeros)

lemma load64_ZeroedAddresses_out:
  "a \<le> a + 7 \<Longrightarrow> e \<le> s \<or> a + 7 < s \<or> e \<le> a
     \<Longrightarrow> load64 (ZeroedAddresses m s e) a = load64 m a"
  using load_bytes_ZeroedAddresses_out [of a 7 s e 8 m] ZeroedAddresses_empty [of s e m]
  by (cases "e \<le> s") (simp_all add: load64_def)

lemma load32_ZeroedAddresses_out:
  "a \<le> a + 3 \<Longrightarrow> e \<le> s \<or> a + 3 < s \<or> e \<le> a
     \<Longrightarrow> load32 (ZeroedAddresses m s e) a = load32 m a"
  using load_bytes_ZeroedAddresses_out [of a 3 s e 4 m] ZeroedAddresses_empty [of s e m]
  by (cases "e \<le> s") (simp_all add: load32_def)

lemma load64_store_bytes_disj:
  "length bs \<le> unat (b - a) \<Longrightarrow> 8 \<le> unat (a - b) \<Longrightarrow> load64 (store_bytes m a bs) b = load64 m b"
  by (simp add: load64_def load_bytes_store_bytes_disj)

lemma load32_store_bytes_disj:
  "length bs \<le> unat (b - a) \<Longrightarrow> 4 \<le> unat (a - b) \<Longrightarrow> load32 (store_bytes m a bs) b = load32 m b"
  by (simp add: load32_def load_bytes_store_bytes_disj)

lemma load32_bytes: "load32 m b = le_word [m b, m (b + 1), m (b + 2), m (b + 3)]"
  by (simp add: load32_def load_bytes_def upt_rec)

lemma load64_bytes:
  "load64 m b = le_word [m b, m (b + 1), m (b + 2), m (b + 3), m (b + 4), m (b + 5), m (b + 6), m (b + 7)]"
  by (simp add: load64_def load_bytes_def upt_rec)

lemma store64_apply:
  "store64 m a v x = (if x - a < 8 then ucast (drop_bit (8 * unat (x - a)) v) else m x)"
  by (simp add: store64_def store_bytes_def le_bytes_def word_less_nat_alt)

lemma store32_apply:
  "store32 m a v x = (if x - a < 4 then ucast (drop_bit (8 * unat (x - a)) v) else m x)"
  by (simp add: store32_def store_bytes_def le_bytes_def word_less_nat_alt)

lemma store_bytes_apply:
  "store_bytes m a bs x = (if x - a < of_nat (length bs) then bs ! unat (x - a) else m x)"
  by (simp add: store_bytes_def)

lemma load32_store64_overlap:
  "unat (b - a) < 8 \<or> unat (a - b) < 4 \<Longrightarrow>
     load32 (store64 m a v) b = le_word [store64 m a v b, store64 m a v (b + 1),
       store64 m a v (b + 2), store64 m a v (b + 3)]"
  by (rule load32_bytes)

lemma load32_store32_overlap:
  "a \<noteq> b \<Longrightarrow> unat (b - a) < 4 \<or> unat (a - b) < 4 \<Longrightarrow>
     load32 (store32 m a v) b = le_word [store32 m a v b, store32 m a v (b + 1),
       store32 m a v (b + 2), store32 m a v (b + 3)]"
  by (rule load32_bytes)

lemma load64_store64_overlap:
  "a \<noteq> b \<Longrightarrow> unat (b - a) < 8 \<or> unat (a - b) < 8 \<Longrightarrow>
     load64 (store64 m a v) b = le_word [store64 m a v b, store64 m a v (b + 1),
       store64 m a v (b + 2), store64 m a v (b + 3), store64 m a v (b + 4),
       store64 m a v (b + 5), store64 m a v (b + 6), store64 m a v (b + 7)]"
  by (rule load64_bytes)

lemma load64_store32_overlap:
  "unat (b - a) < 4 \<or> unat (a - b) < 8 \<Longrightarrow>
     load64 (store32 m a v) b = le_word [store32 m a v b, store32 m a v (b + 1),
       store32 m a v (b + 2), store32 m a v (b + 3), store32 m a v (b + 4),
       store32 m a v (b + 5), store32 m a v (b + 6), store32 m a v (b + 7)]"
  by (rule load64_bytes)

lemma junk_apply: "junk x = 0xAA"
  by (simp add: junk_def)

lemmas overlap_rules = load32_store64_overlap load32_store32_overlap load64_store64_overlap
  load64_store32_overlap store64_apply store32_apply store_bytes_apply ZeroedAddresses_apply
  le_word_def junk_apply

lemmas zero_rules = load64_ZeroedAddresses_in load32_ZeroedAddresses_in
  load64_ZeroedAddresses_out load32_ZeroedAddresses_out
  load64_store_bytes_disj load32_store_bytes_disj

lemmas run_simps = Allocate_defs Allocate_search.simps Free_defs Free_scan.simps field_defs
  size_defs disj_rules zero_rules Let_def

section \<open>Runs\<close>

text \<open>Each step of the runs the claims below are checked against, evaluated by rewriting.\<close>

lemma ctor_arena_160: "FreeListAllocator_ctor 160 0x1000 junk = Inr arena_160"
  by (simp add: ctor_defs field_defs size_defs arena_160_def)

lemma ctor_arena_2G4K: "FreeListAllocator_ctor 0x80001000 0x1000 junk = Inr arena_2G4K"
  by (simp add: ctor_defs field_defs size_defs arena_2G4K_def)

lemma Free_arena_300_A_written_0x1010:
  "Free arena_300_A_written 0x1010 = Some (Inr arena_300_A_freed)"
  by (simp add: arena_300_def arena_300_A_def arena_300_A_written_def arena_300_A_freed_def run_simps
      cong: let_weak_cong prod.case_cong_weak)

lemma Allocate_arena_300_A_freed_16:
  "Allocate arena_300_A_freed 16 8 = Some (Inl bad_alloc, arena_300_A_freed)"
  by (simp add: arena_300_def arena_300_A_def arena_300_A_written_def arena_300_A_freed_def run_simps
      cong: let_weak_cong prod.case_cong_weak)

lemma Allocate_arena_300_A_16:
  "Allocate arena_300_A 16 8 = Some (Inr 0x1040, arena_300_AB)"
  by (simp add: arena_300_def arena_300_A_def arena_300_AB_def run_simps
      cong: let_weak_cong prod.case_cong_weak)

lemma Free_arena_300_AB_written_0x1010:
  "Free arena_300_AB_written 0x1010 = Some (Inr arena_300_B)"
  by (simp add: arena_300_def arena_300_A_def arena_300_AB_def arena_300_AB_written_def
      arena_300_B_def run_simps
      cong: let_weak_cong prod.case_cong_weak)

lemma Allocate_arena_300_AB_16:
  "Allocate arena_300_AB 16 8 = Some (Inr 0x1070, arena_300_ABC)"
  by (simp add: arena_300_def arena_300_A_def arena_300_AB_def arena_300_ABC_def run_simps
      cong: let_weak_cong prod.case_cong_weak)

lemma Free_arena_300_ABC_0x1070:
  "Free arena_300_ABC 0x1070 = Some (Inr arena_300_AB_C)"
  by (simp add: arena_300_def arena_300_A_def arena_300_AB_def arena_300_ABC_def arena_300_AB_C_def run_simps
      cong: let_weak_cong prod.case_cong_weak)

lemma Free_arena_300_AB_C_0x1040:
  "Free arena_300_AB_C 0x1040 = Some (Inr arena_300_A_BC)"
  by (simp add: arena_300_def arena_300_A_def arena_300_AB_def arena_300_ABC_def arena_300_AB_C_def
      arena_300_A_BC_def run_simps
      cong: let_weak_cong prod.case_cong_weak)

lemma Free_arena_300_A_BC_0x1010:
  "Free arena_300_A_BC 0x1010 = Some (Inr arena_300_ABC_freed)"
  by (simp add: arena_300_def arena_300_A_def arena_300_AB_def arena_300_ABC_def arena_300_AB_C_def
      arena_300_A_BC_def arena_300_ABC_freed_def run_simps
      cong: let_weak_cong prod.case_cong_weak)

lemma Allocate_arena_160_16:
  "Allocate arena_160 16 8 = Some (Inr 0x1010, arena_160_A)"
  by (simp add: arena_160_def arena_160_A_def run_simps
      cong: let_weak_cong prod.case_cong_weak)

lemma Allocate_arena_160_A_16:
  "Allocate arena_160_A 16 8 = Some (Inr 0x1040, arena_160_AB)"
  by (simp add: arena_160_def arena_160_A_def arena_160_AB_def run_simps
      cong: let_weak_cong prod.case_cong_weak)

lemma Allocate_arena_160_AB_16:
  "Allocate arena_160_AB 16 8 = Some (Inr 0x1070, arena_160_ABC)"
  by (simp add: arena_160_def arena_160_A_def arena_160_AB_def arena_160_ABC_def run_simps
      cong: let_weak_cong prod.case_cong_weak)

lemma Free_arena_160_ABC_0x1040:
  "Free arena_160_ABC 0x1040 = Some (Inr arena_160_AC)"
  by (simp add: arena_160_def arena_160_A_def arena_160_AB_def arena_160_ABC_def arena_160_AC_def run_simps
      cong: let_weak_cong prod.case_cong_weak)

lemma Free_arena_160_AC_0x1010:
  "Free arena_160_AC 0x1010 = Some (Inr arena_160_C)"
  by (simp add: arena_160_def arena_160_A_def arena_160_AB_def arena_160_ABC_def arena_160_AC_def
      arena_160_C_def run_simps
      cong: let_weak_cong prod.case_cong_weak)

lemma Free_arena_160_C_0x1070:
  "Free arena_160_C 0x1070 = Some (Inr arena_160_freed)"
  by (simp add: arena_160_def arena_160_A_def arena_160_AB_def arena_160_ABC_def arena_160_AC_def
      arena_160_C_def arena_160_freed_def run_simps
      cong: let_weak_cong prod.case_cong_weak)

lemma Allocate_arena_300_40:
  "Allocate arena_300 40 8 = Some (Inr 0x1010, arena_300_P)"
  by (simp add: arena_300_def arena_300_P_def run_simps
      cong: let_weak_cong prod.case_cong_weak)

lemma Allocate_arena_300_P_8:
  "Allocate arena_300_P 8 8 = Some (Inr 0x1058, arena_300_PQ)"
  by (simp add: arena_300_def arena_300_P_def arena_300_PQ_def run_simps
      cong: let_weak_cong prod.case_cong_weak)

lemma Free_arena_300_PQ_0x1010:
  "Free arena_300_PQ 0x1010 = Some (Inr arena_300_Q)"
  by (simp add: arena_300_def arena_300_P_def arena_300_PQ_def arena_300_Q_def run_simps
      cong: let_weak_cong prod.case_cong_weak)

lemma Allocate_arena_300_Q_17:
  "Allocate arena_300_Q 17 8 = Some (Inr 0x1010, arena_300_RQ)"
  by (simp add: arena_300_def arena_300_P_def arena_300_PQ_def arena_300_Q_def arena_300_RQ_def run_simps
      cong: let_weak_cong prod.case_cong_weak)

lemma Free_arena_300_RQ_0x1058:
  "Free arena_300_RQ 0x1058 = Some (Inr arena_300_R)"
  by (simp add: arena_300_def arena_300_P_def arena_300_PQ_def arena_300_Q_def arena_300_RQ_def
      arena_300_R_def run_simps overlap_rules
      cong: let_weak_cong prod.case_cong_weak)

lemma Free_arena_300_R_0x1010:
  "Free arena_300_R 0x1010 = Some (Inr arena_300_PQR_freed)"
  by (simp add: arena_300_def arena_300_P_def arena_300_PQ_def arena_300_Q_def arena_300_RQ_def
      arena_300_R_def arena_300_PQR_freed_def run_simps overlap_rules
      cong: let_weak_cong prod.case_cong_weak)

lemma Allocate_arena_2G4K_16:
  "Allocate arena_2G4K 16 8 = Some (Inr 0x1010, arena_2G4K_A)"
  by (simp add: arena_2G4K_def arena_2G4K_A_def run_simps
      cong: let_weak_cong prod.case_cong_weak)

lemma Allocate_arena_2G4K_A_16:
  "Allocate arena_2G4K_A 16 8 = Some (Inr 0x1040, arena_2G4K_AB)"
  by (simp add: arena_2G4K_def arena_2G4K_A_def arena_2G4K_AB_def run_simps
      cong: let_weak_cong prod.case_cong_weak)

lemma Free_arena_2G4K_AB_0x1010:
  "Free arena_2G4K_AB 0x1010 = Some (Inr arena_2G4K_B)"
  by (simp add: arena_2G4K_def arena_2G4K_A_def arena_2G4K_AB_def arena_2G4K_B_def run_simps
      cong: let_weak_cong prod.case_cong_weak)

lemma Allocate_arena_2G4K_B_8:
  "Allocate arena_2G4K_B 8 8 = Some (Inr 0x1070, arena_2G4K_B_8)"
  by (simp add: arena_2G4K_def arena_2G4K_A_def arena_2G4K_AB_def arena_2G4K_B_def arena_2G4K_B_8_def run_simps
      cong: let_weak_cong prod.case_cong_weak)

section \<open>The search loop\<close>

lemma align_Inr:
  "alignment \<noteq> 0 \<Longrightarrow> \<exists>adj. align_forward_adjustment_with_header r p alignment = Inr adj"
  by (simp add: align_forward_adjustment_with_header_def Let_def)

lemma fl_path_next_prev:
  "fl_path m (fb_next m b) bs \<Longrightarrow> fl_prevs m b bs \<Longrightarrow> fb_next m b \<noteq> 0
     \<Longrightarrow> fb_prev m (fb_next m b) = b"
  by (cases bs) auto

lemma set_fb_prev_same: "fb_prev m c = b \<Longrightarrow> set_fb_prev m c b = m"
  by (auto simp: fb_prev_def set_fb_prev_def)

lemma set_fb_next_same: "fb_next m c = b \<Longrightarrow> set_fb_next m c b = m"
  by (auto simp: fb_next_def set_fb_next_def)

lemma Allocate_search_list:
  assumes al: "alignment \<noteq> 0"
  shows "fl_path m h bs \<Longrightarrow> fl_prevs m p bs \<Longrightarrow> p = 0 \<or> bs = [] \<or> fb_next m p = h
    \<Longrightarrow> Allocate_search m size' alignment h bestFit bestFitTotalSize bestFitAdjustment
        = Some (m, Inr (search_list m size' alignment bs (bestFit, bestFitTotalSize, bestFitAdjustment)))"
proof (induction bs arbitrary: h p bestFit bestFitTotalSize bestFitAdjustment)
  case Nil
  then show ?case by (subst Allocate_search.simps) simp
next
  case (Cons b bs)
  from Cons.prems have h: "h = b" "b \<noteq> 0" and path: "fl_path m (fb_next m b) bs"
    and prev: "fb_prev m b = p" and prevs: "fl_prevs m b bs" by simp_all
  obtain adj where adj: "align_forward_adjustment_with_header sizeof_AllocationHeader b alignment = Inr adj"
    using align_Inr [OF al] by blast
  have m1: "(if fb_next m b \<noteq> 0 then set_fb_prev m (fb_next m b) b else m) = m"
    using fl_path_next_prev [OF path prevs] by (simp add: set_fb_prev_same)
  have m2: "(if fb_prev m b \<noteq> 0 then set_fb_next m (fb_prev m b) b else m) = m"
    using Cons.prems(3) prev h by (auto simp: set_fb_next_same)
  have IH: "Allocate_search m size' alignment (fb_next m b) x y z
      = Some (m, Inr (search_list m size' alignment bs (x, y, z)))" for x y z
    by (rule Cons.IH [OF path prevs]) simp
  show ?case
    apply (subst Allocate_search.simps)
    apply (simp only: h(1) adj sum.case Let_def m1 m2 IH)
    apply (auto simp: h adj Let_def)
    done
qed

lemma word_sless_sint: "a <s b \<longleftrightarrow> sint a < sint b"
  by (simp add: word_sless_alt)

lemma code_best_fit_snoc_keep:
  assumes "code_best_fit m s al pre B" and "code_qualifies m s al b \<longrightarrow> sint (fb_size m B) \<le> sint (fb_size m b)"
  shows "code_best_fit m s al (pre @ [b]) B"
proof -
  from assms(1) obtain xs ys where *: "pre = xs @ B # ys" "code_qualifies m s al B"
    "\<forall>x\<in>set xs. code_qualifies m s al x \<longrightarrow> sint (fb_size m B) < sint (fb_size m x)"
    "\<forall>y\<in>set ys. code_qualifies m s al y \<longrightarrow> sint (fb_size m B) \<le> sint (fb_size m y)"
    unfolding code_best_fit_def by blast
  have "pre @ [b] = xs @ B # (ys @ [b])" using *(1) by simp
  moreover have "\<forall>y\<in>set (ys @ [b]). code_qualifies m s al y \<longrightarrow> sint (fb_size m B) \<le> sint (fb_size m y)"
    using *(4) assms(2) by auto
  ultimately show ?thesis unfolding code_best_fit_def using *(2,3) by blast
qed

lemma code_best_fit_snoc_new:
  assumes "code_qualifies m s al b"
    and "\<forall>x\<in>set pre. code_qualifies m s al x \<longrightarrow> sint (fb_size m b) < sint (fb_size m x)"
  shows "code_best_fit m s al (pre @ [b]) b"
  unfolding code_best_fit_def using assms by (intro exI [of _ pre] exI [of _ "[]"]) simp

lemma code_best_fit_lower_bound:
  assumes "code_best_fit m s al pre B" and "x \<in> set pre" and "code_qualifies m s al x"
  shows "sint (fb_size m B) \<le> sint (fb_size m x)"
proof -
  from assms(1) obtain xs ys where *: "pre = xs @ B # ys"
    "\<forall>x\<in>set xs. code_qualifies m s al x \<longrightarrow> sint (fb_size m B) < sint (fb_size m x)"
    "\<forall>y\<in>set ys. code_qualifies m s al y \<longrightarrow> sint (fb_size m B) \<le> sint (fb_size m y)"
    unfolding code_best_fit_def by blast
  from assms(2) *(1) consider "x \<in> set xs" | "x = B" | "x \<in> set ys" by auto
  then show ?thesis using *(2,3) assms(3) by cases force+
qed

lemma search_list_inv:
  assumes al: "alignment \<noteq> 0"
  shows "0 \<notin> set bs \<Longrightarrow> search_inv m size' alignment pre acc
    \<Longrightarrow> search_inv m size' alignment (pre @ bs) (search_list m size' alignment bs acc)"
proof (induction bs arbitrary: pre acc)
  case Nil
  then show ?case by simp
next
  case (Cons b bs)
  obtain bestFit bt ba where acc: "acc = (bestFit, bt, ba)" by (cases acc)
  obtain adj where adj: "align_forward_adjustment_with_header sizeof_AllocationHeader b alignment = Inr adj"
    using align_Inr [OF al] by blast
  let ?total = "size' + adj + sizeof_AllocationHeader"
  have q: "code_qualifies m size' alignment b \<longleftrightarrow> ?total < int_to_size_t (fb_size m b)"
    by (simp add: code_qualifies_def adj)
  from Cons.prems have b0: "b \<noteq> 0" and bs0: "0 \<notin> set bs" by auto
  show ?case
  proof (cases "?total < int_to_size_t (fb_size m b) \<and> (bestFit = 0 \<or> fb_size m b <s fb_size m bestFit)")
    case True
    have "\<forall>x\<in>set pre. code_qualifies m size' alignment x \<longrightarrow> sint (fb_size m b) < sint (fb_size m x)"
    proof (cases "bestFit = 0")
      case True
      with Cons.prems(2) show ?thesis by (simp add: search_inv_def acc)
    next
      case False
      with Cons.prems(2) have bf: "code_best_fit m size' alignment pre bestFit"
        by (simp add: search_inv_def acc)
      from False True have "sint (fb_size m b) < sint (fb_size m bestFit)"
        by (simp add: word_sless_sint)
      with code_best_fit_lower_bound [OF bf] show ?thesis by fastforce
    qed
    with True q have "code_best_fit m size' alignment (pre @ [b]) b"
      by (intro code_best_fit_snoc_new) simp_all
    then have "search_inv m size' alignment (pre @ [b]) (b, ?total, adj)"
      using b0 adj by (simp add: search_inv_def)
    from Cons.IH [OF bs0 this] show ?thesis
      using True by (simp add: acc adj Let_def)
  next
    case False
    have "search_inv m size' alignment (pre @ [b]) (bestFit, bt, ba)"
    proof (cases "bestFit = 0")
      case True
      with False q have "\<not> code_qualifies m size' alignment b" by simp
      with True Cons.prems(2) show ?thesis by (simp add: search_inv_def acc)
    next
      case nz: False
      with Cons.prems(2) have bf: "code_best_fit m size' alignment pre bestFit"
        and rest: "align_forward_adjustment_with_header sizeof_AllocationHeader bestFit alignment = Inr ba"
          "bt = size' + ba + sizeof_AllocationHeader"
        by (simp_all add: search_inv_def acc)
      from False nz q have "code_qualifies m size' alignment b \<longrightarrow> sint (fb_size m bestFit) \<le> sint (fb_size m b)"
        by (auto simp: word_sless_sint)
      from code_best_fit_snoc_keep [OF bf this] show ?thesis
        using nz rest by (simp add: search_inv_def)
    qed
    from Cons.IH [OF bs0 this] show ?thesis
      using False by (auto simp: acc adj Let_def)
  qed
qed

lemma fl_path_nonzero: "fl_path m h bs \<Longrightarrow> 0 \<notin> set bs"
  by (induction bs arbitrary: h) auto

lemma Allocate_search_none:
  assumes "alignment \<noteq> 0"
  shows "fl_path m h bs \<Longrightarrow> \<forall>b\<in>set bs. \<not> code_qualifies m size' alignment b
    \<Longrightarrow> Allocate_search m size' alignment h bestFit bestFitTotalSize bestFitAdjustment
        = Some (m, Inr (bestFit, bestFitTotalSize, bestFitAdjustment))"
proof (induction bs arbitrary: h)
  case Nil
  then show ?case by (subst Allocate_search.simps) simp
next
  case (Cons b bs)
  obtain adj where adj: "align_forward_adjustment_with_header sizeof_AllocationHeader b alignment = Inr adj"
    using align_Inr [OF assms] by blast
  from Cons.prems have "\<not> code_qualifies m size' alignment b" by simp
  then have nq: "\<not> size' + adj + sizeof_AllocationHeader < int_to_size_t (fb_size m b)"
    by (simp add: code_qualifies_def adj)
  from Cons.prems have h: "h = b" "b \<noteq> 0" and path: "fl_path m (fb_next m b) bs"
    and rest: "\<forall>b\<in>set bs. \<not> code_qualifies m size' alignment b" by simp_all
  show ?case
    by (subst Allocate_search.simps) (simp add: h adj Let_def nq Cons.IH [OF path rest])
qed


lemma code_best_fit_mem: "code_best_fit m s al bs B \<Longrightarrow> B \<in> set bs \<and> code_qualifies m s al B"
  unfolding code_best_fit_def by auto


lemma Allocate_code_best_fit:
  assumes "free_list a bs" and "alignment \<noteq> 0"
    and "\<exists>b\<in>set bs. code_qualifies (mem a) size' alignment b"
  shows "\<exists>B adjustment a'.
           code_best_fit (mem a) size' alignment bs B
         \<and> align_forward_adjustment_with_header sizeof_AllocationHeader B alignment = Inr adjustment
         \<and> Allocate a size' alignment = Some (Inr (B + adjustment), a')"
proof -
  from assms(1) have path: "fl_path (mem a) (m_freeBlocks a) bs" and prevs: "fl_prevs (mem a) 0 bs"
    by (simp_all add: free_list_def)
  obtain B bt ba where r: "search_list (mem a) size' alignment bs (0, 0, 0) = (B, bt, ba)"
    by (cases "search_list (mem a) size' alignment bs (0, 0, 0)")
  have s: "Allocate_search (mem a) size' alignment (m_freeBlocks a) 0 0 0 = Some (mem a, Inr (B, bt, ba))"
    using Allocate_search_list [OF assms(2) path prevs, of size' 0 0 0] by (simp add: r)
  have "search_inv (mem a) size' alignment [] (0, 0, 0)" by (simp add: search_inv_def)
  from search_list_inv [OF assms(2) fl_path_nonzero [OF path] this]
  have inv: "search_inv (mem a) size' alignment bs (B, bt, ba)" by (simp add: r)
  have B0: "B \<noteq> 0"
  proof
    assume "B = 0"
    with inv have "\<forall>x\<in>set bs. \<not> code_qualifies (mem a) size' alignment x" by (simp add: search_inv_def)
    with assms(3) show False by blast
  qed
  with inv have bf: "code_best_fit (mem a) size' alignment bs B"
    and al: "align_forward_adjustment_with_header sizeof_AllocationHeader B alignment = Inr ba"
    by (simp_all add: search_inv_def)
  have "\<exists>a'. Allocate a size' alignment = Some (Inr (B + ba), a')"
    by (simp add: Allocate_def s B0 Let_def split: prod.splits)
  with bf al show ?thesis by blast
qed


lemma Allocate_code_out_of_memory:
  assumes "fl_path (mem a) (m_freeBlocks a) bs" and "alignment \<noteq> 0"
    and "\<forall>b\<in>set bs. \<not> code_qualifies (mem a) size' alignment b"
  shows "Allocate a size' alignment = Some (Inl bad_alloc, a)"
  by (simp add: Allocate_def Allocate_search_none [OF assms(2,1,3)])

text \<open>
  Below 2 GiB the code's test is the specification's, and \<^verbatim>\<open>Allocate\<close> serves the best
  fit or, when no block qualifies, throws and leaves the allocator as it was.
\<close>

lemma sint_below_2G:
  fixes w :: "32 word"
  assumes "unat w < 2 ^ 31"
  shows "sint w = int (unat w)"
proof -
  have u: "uint w = int (unat w)" by (rule uint_nat)
  from assms have "int (unat w) < int (2 ^ 31)" by (simp only: of_nat_less_iff)
  then have 1: "uint w < 2 ^ 31" unfolding u [symmetric] by simp
  have "- (2 ^ 31) \<le> (0 :: int)" by simp
  then have 2: "- (2 ^ 31) \<le> uint w" using uint_ge_0 [of w] by (rule order_trans)
  have "signed_take_bit 31 (uint w) = uint w"
    by (rule signed_take_bit_int_eq_self [OF 2 1])
  then show ?thesis
    by (simp add: sint_uint)
qed

lemma int_to_size_t_below_2G:
  fixes w :: "32 word"
  assumes "unat w < 2 ^ 31"
  shows "unat (int_to_size_t w) = unat w"
proof -
  have "int_to_size_t w = of_nat (unat w)"
    by (simp add: int_to_size_t_def scast_eq sint_below_2G [OF assms] del: of_nat_unat)
  moreover have "unat w < 2 ^ 64" using assms by simp
  ultimately show ?thesis by (simp add: unat_of_nat del: of_nat_unat)
qed

lemma qualifies_code_qualifies:
  assumes "block_size m b < 2 ^ 31" and "footprints_fit size' alignment [b]"
  shows "code_qualifies m size' alignment b \<longleftrightarrow> qualifies m size' alignment b"
proof (cases "align_forward_adjustment_with_header sizeof_AllocationHeader b alignment")
  case (Inl e)
  then show ?thesis by (simp add: code_qualifies_def qualifies_def)
next
  case (Inr adjustment)
  with assms(2) have fit: "unat size' + unat adjustment + unat sizeof_AllocationHeader < 2 ^ 64"
    by (simp add: footprints_fit_def)
  then have 1: "unat size' + unat adjustment < 2 ^ LENGTH(64)" by simp
  from unat_add_lem [THEN iffD1, OF 1]
  have 2: "unat (size' + adjustment) = unat size' + unat adjustment" .
  from fit have "unat (size' + adjustment) + unat sizeof_AllocationHeader < 2 ^ LENGTH(64)"
    by (simp add: 2)
  from unat_add_lem [THEN iffD1, OF this]
  have "unat (size' + adjustment + sizeof_AllocationHeader)
      = unat size' + unat adjustment + unat sizeof_AllocationHeader"
    by (simp only: 2)
  moreover have "unat (int_to_size_t (fb_size m b)) = block_size m b"
    using assms(1) by (simp add: block_size_def int_to_size_t_below_2G)
  ultimately show ?thesis
    by (simp add: code_qualifies_def qualifies_def Inr word_less_nat_alt)
qed

lemma footprints_fit_mono: "footprints_fit size' alignment bs \<Longrightarrow> b \<in> set bs
    \<Longrightarrow> footprints_fit size' alignment [b]"
  by (simp add: footprints_fit_def)

lemma best_fit_code_best_fit:
  assumes "below_2G m bs" and "footprints_fit size' alignment bs"
    and "code_best_fit m size' alignment bs B"
  shows "best_fit m size' alignment bs B"
proof -
  have q: "code_qualifies m size' alignment b \<longleftrightarrow> qualifies m size' alignment b"
    if "b \<in> set bs" for b
    using that assms(1,2)
    by (intro qualifies_code_qualifies footprints_fit_mono) (auto simp: below_2G_def)
  have s: "sint (fb_size m b) = int (block_size m b)" if "b \<in> set bs" for b
    using that assms(1) by (simp add: below_2G_def block_size_def sint_below_2G)
  from assms(3) obtain xs ys where *: "bs = xs @ B # ys" "code_qualifies m size' alignment B"
    "\<forall>x\<in>set xs. code_qualifies m size' alignment x \<longrightarrow> sint (fb_size m B) < sint (fb_size m x)"
    "\<forall>y\<in>set ys. code_qualifies m size' alignment y \<longrightarrow> sint (fb_size m B) \<le> sint (fb_size m y)"
    unfolding code_best_fit_def by blast
  have B: "B \<in> set bs" and xs: "set xs \<subseteq> set bs" and ys: "set ys \<subseteq> set bs"
    using *(1) by auto
  have "qualifies m size' alignment B" using *(2) q [OF B] by simp
  moreover have "\<forall>x\<in>set xs. qualifies m size' alignment x \<longrightarrow> block_size m B < block_size m x"
  proof (intro ballI impI)
    fix x assume x: "x \<in> set xs" and "qualifies m size' alignment x"
    with xs q [of x] *(3) have "sint (fb_size m B) < sint (fb_size m x)" by auto
    with s [OF B] s [of x] x xs show "block_size m B < block_size m x" by auto
  qed
  moreover have "\<forall>y\<in>set ys. qualifies m size' alignment y \<longrightarrow> block_size m B \<le> block_size m y"
  proof (intro ballI impI)
    fix y assume y: "y \<in> set ys" and "qualifies m size' alignment y"
    with ys q [of y] *(4) have "sint (fb_size m B) \<le> sint (fb_size m y)" by auto
    with s [OF B] s [of y] y ys show "block_size m B \<le> block_size m y" by auto
  qed
  ultimately show ?thesis
    unfolding best_fit_def using *(1) by blast
qed

lemma Allocate_best_fit_below_2G:
  assumes "free_list a bs" and "alignment \<noteq> 0"
    and "below_2G (mem a) bs" and "footprints_fit size' alignment bs"
    and "\<exists>b\<in>set bs. qualifies (mem a) size' alignment b"
  shows "\<exists>B adjustment a'.
           best_fit (mem a) size' alignment bs B
         \<and> align_forward_adjustment_with_header sizeof_AllocationHeader B alignment = Inr adjustment
         \<and> Allocate a size' alignment = Some (Inr (B + adjustment), a')"
proof -
  from assms(5) obtain b where b: "b \<in> set bs" "qualifies (mem a) size' alignment b" by blast
  with assms(3,4) have "code_qualifies (mem a) size' alignment b"
    using qualifies_code_qualifies [of "mem a" b size' alignment]
    by (simp add: below_2G_def footprints_fit_mono)
  with b(1) have "\<exists>b\<in>set bs. code_qualifies (mem a) size' alignment b" by blast
  from Allocate_code_best_fit [OF assms(1,2) this] obtain B adjustment a'
    where "code_best_fit (mem a) size' alignment bs B"
      and r: "align_forward_adjustment_with_header sizeof_AllocationHeader B alignment = Inr adjustment"
        "Allocate a size' alignment = Some (Inr (B + adjustment), a')"
    by blast
  from best_fit_code_best_fit [OF assms(3,4) this(1)] r show ?thesis by blast
qed

lemma Allocate_out_of_memory_below_2G:
  assumes "fl_path (mem a) (m_freeBlocks a) bs" and "alignment \<noteq> 0"
    and "below_2G (mem a) bs" and "footprints_fit size' alignment bs"
    and "\<forall>b\<in>set bs. \<not> qualifies (mem a) size' alignment b"
  shows "Allocate a size' alignment = Some (Inl bad_alloc, a)"
proof -
  have "\<forall>b\<in>set bs. \<not> code_qualifies (mem a) size' alignment b"
  proof
    fix b assume b: "b \<in> set bs"
    with assms(3,4) have "code_qualifies (mem a) size' alignment b
        \<longleftrightarrow> qualifies (mem a) size' alignment b"
      by (intro qualifies_code_qualifies footprints_fit_mono) (auto simp: below_2G_def)
    with assms(5) b show "\<not> code_qualifies (mem a) size' alignment b" by simp
  qed
  from Allocate_code_out_of_memory [OF assms(1,2) this] show ?thesis .
qed

text \<open>The specification's example: blocks of sizes 50, 200 and 100, and a request of 20 bytes.\<close>

lemma fx_qualifies:
  "\<not> qualifies (mem sizes_50_200_100) 20 8 0x1000"
  "qualifies (mem sizes_50_200_100) 20 8 0x2000"
  "qualifies (mem sizes_50_200_100) 20 8 0x3000"
  unfolding qualifies_def fx_align
  by (simp_all add: fx_fields block_size_def sizeof_AllocationHeader_def)

lemma best_fit_mem: "best_fit m s al bs B \<Longrightarrow> B \<in> set bs \<and> qualifies m s al B"
  unfolding best_fit_def by auto

lemma best_fit_least:
  assumes "best_fit m s al bs B" and "x \<in> set bs" and "qualifies m s al x"
  shows "block_size m B \<le> block_size m x"
proof -
  from assms(1) obtain xs ys where *: "bs = xs @ B # ys"
    "\<forall>x\<in>set xs. qualifies m s al x \<longrightarrow> block_size m B < block_size m x"
    "\<forall>y\<in>set ys. qualifies m s al y \<longrightarrow> block_size m B \<le> block_size m y"
    unfolding best_fit_def by blast
  from assms(2) *(1) consider "x \<in> set xs" | "x = B" | "x \<in> set ys" by auto
  then show ?thesis using *(2,3) assms(3) by cases force+
qed

lemma Allocate_sizes_50_200_100:
  "free_list sizes_50_200_100 [0x1000, 0x2000, 0x3000]
   \<and> below_2G (mem sizes_50_200_100) [0x1000, 0x2000, 0x3000]
   \<and> footprints_fit 20 8 [0x1000, 0x2000, 0x3000]
   \<and> best_fit (mem sizes_50_200_100) 20 8 [0x1000, 0x2000, 0x3000] 0x3000
   \<and> (\<exists>a'. Allocate sizes_50_200_100 20 8 = Some (Inr 0x3010, a'))"
proof -
  let ?bs = "[0x1000, 0x2000, 0x3000] :: addr list"
  have fl: "free_list sizes_50_200_100 ?bs"
    by (simp add: free_list_def fx_fields)
  have lo: "below_2G (mem sizes_50_200_100) ?bs"
    by (simp add: below_2G_def block_size_def fx_fields)
  have ff: "footprints_fit 20 8 ?bs"
    by (simp add: footprints_fit_def fx_align) (simp add: sizeof_AllocationHeader_def)
  have ex: "\<exists>b\<in>set ?bs. qualifies (mem sizes_50_200_100) 20 8 b"
    by (simp add: fx_qualifies)
  have al: "(8 :: 64 word) \<noteq> 0" by simp
  from Allocate_best_fit_below_2G [OF fl al lo ff ex] obtain B adjustment a'
    where bf: "best_fit (mem sizes_50_200_100) 20 8 ?bs B"
      and adj: "align_forward_adjustment_with_header sizeof_AllocationHeader B 8 = Inr adjustment"
      and res: "Allocate sizes_50_200_100 20 8 = Some (Inr (B + adjustment), a')"
    by blast
  from best_fit_mem [OF bf] have B: "B = 0x2000 \<or> B = 0x3000"
    using fx_qualifies(1) by auto
  have "block_size (mem sizes_50_200_100) B \<le> block_size (mem sizes_50_200_100) 0x3000"
    by (rule best_fit_least [OF bf]) (simp_all add: fx_qualifies)
  with B have B3: "B = 0x3000" by (auto simp: fx_fields block_size_def)
  with adj have "adjustment = 16" by (simp add: fx_align)
  with res B3 have "\<exists>a'. Allocate sizes_50_200_100 20 8 = Some (Inr 0x3010, a')" by auto
  with fl lo ff bf B3 show ?thesis by simp
qed

section \<open>Claims\<close>

lemma GetStart_FreeListAllocator_ctor:
  "FreeListAllocator_ctor sizeBytes start m = Inr a \<Longrightarrow> GetStart a = start"
  by (auto simp: FreeListAllocator_ctor_def Allocator_ctor_def GetStart_def Let_def
      split: if_splits)

lemma GetStart_Allocate:
  "Allocate a size' alignment = Some (r, a') \<Longrightarrow> GetStart a' = GetStart a"
  by (auto simp: Allocate_def GetStart_def Let_def
      split: option.splits sum.splits prod.splits if_splits)

lemma GetStart_Free: "Free a ptr = Some (Inr a') \<Longrightarrow> GetStart a' = GetStart a"
  by (auto simp: Free_def GetStart_def Let_def split: option.splits prod.splits if_splits)

lemma GetStart_from_arena: "from_arena start a \<Longrightarrow> GetStart a = start"
  by (induction rule: from_arena.induct)
    (simp_all add: GetStart_FreeListAllocator_ctor GetStart_Allocate GetStart_Free,
      simp add: GetStart_def)

text \<open>
  Claim C9. For any two adaptors, whatever state the allocators they refer to are in,
  \<^verbatim>\<open>operator==\<close> holds exactly when the two allocators have the same start address, and
  \<^verbatim>\<open>operator!=\<close> exactly when they have not. An allocator made over an arena at
  \<open>start\<close> keeps that start address through every \<^verbatim>\<open>Allocate\<close> and \<^verbatim>\<open>Free\<close>, so
  bindings over the same arena are equal and bindings over arenas that start at different
  addresses are not.
\<close>

theorem STLAdaptor_eq_iff_same_start:
  "(STLAdaptor_eq lhs rhs \<longleftrightarrow> GetStart (m_allocator lhs) = GetStart (m_allocator rhs))
   \<and> (STLAdaptor_neq lhs rhs \<longleftrightarrow> GetStart (m_allocator lhs) \<noteq> GetStart (m_allocator rhs))
   \<and> (from_arena start1 a1 \<and> from_arena start2 a2 \<longrightarrow>
        (STLAdaptor_eq (STLAdaptor_ctor a1) (STLAdaptor_ctor a2) \<longleftrightarrow> start1 = start2)
      \<and> (STLAdaptor_neq (STLAdaptor_ctor a1) (STLAdaptor_ctor a2) \<longleftrightarrow> start1 \<noteq> start2))"
  by (auto simp: STLAdaptor_eq_def STLAdaptor_neq_def STLAdaptor_ctor_def
      dest: GetStart_from_arena)

text \<open>
  A binding to the fresh allocator of the arena at \<^verbatim>\<open>0x1000\<close> and one to the same
  allocator after an allocation are equal; a binding to an allocator over an arena at
  \<^verbatim>\<open>0x2000\<close> differs from both.
\<close>

theorem STLAdaptor_eq_iff_same_start_witness:
  "from_arena 0x1000 arena_300 \<and> from_arena 0x1000 arena_300_A
   \<and> STLAdaptor_eq (STLAdaptor_ctor arena_300) (STLAdaptor_ctor arena_300_A)
   \<and> (\<exists>c. FreeListAllocator_ctor 300 0x2000 junk = Inr c
        \<and> STLAdaptor_neq (STLAdaptor_ctor arena_300_A) (STLAdaptor_ctor c))"
proof -
  fix lhs rhs :: STLAdaptor
  have a: "from_arena 0x1000 arena_300"
    by (rule from_arena.constructed [OF ctor_arena_300])
  have b: "from_arena 0x1000 arena_300_A"
    by (rule from_arena.allocated [OF a Allocate_arena_300])
  obtain c where c: "FreeListAllocator_ctor 300 0x2000 junk = Inr c"
    by (simp add: FreeListAllocator_ctor_def Allocator_ctor_def sizeof_FreeBlock_def)
  then have c': "from_arena 0x2000 c"
    by (rule from_arena.constructed)
  have 1: "STLAdaptor_eq (STLAdaptor_ctor arena_300) (STLAdaptor_ctor arena_300_A)"
    using STLAdaptor_eq_iff_same_start [of lhs rhs "0x1000" arena_300 "0x1000" arena_300_A,
        THEN conjunct2, THEN conjunct2, rule_format, OF conjI [OF a b], THEN conjunct1]
    by simp
  have 2: "STLAdaptor_neq (STLAdaptor_ctor arena_300_A) (STLAdaptor_ctor c)"
    using STLAdaptor_eq_iff_same_start [of lhs rhs "0x1000" arena_300_A "0x2000" c,
        THEN conjunct2, THEN conjunct2, rule_format, OF conjI [OF b c'], THEN conjunct2]
    by simp
  from a b 1 2 c show ?thesis by (intro conjI exI [of _ c])
qed

lemma Allocate_search_adjustment_aux:
  assumes "Allocate_search m size' alignment freeBlock bestFit bestFitTotalSize bestFitAdjustment = Some y"
  shows "(bestFit = 0 \<or> align_forward_adjustment_with_header sizeof_AllocationHeader bestFit alignment
            = Inr bestFitAdjustment)
     \<longrightarrow> (\<forall>m' B t adj. y = (m', Inr (B, t, adj))
            \<longrightarrow> B = 0 \<or> align_forward_adjustment_with_header sizeof_AllocationHeader B alignment = Inr adj)"
  using assms
proof (induction m size' alignment freeBlock bestFit bestFitTotalSize bestFitAdjustment y
    rule: Allocate_search.raw_induct [rotated 1, consumes 1, case_names step])
  case (step search m size' alignment freeBlock bestFit bestFitTotalSize bestFitAdjustment y)
  show ?case
  proof (cases "freeBlock = 0")
    case True
    with step(2) show ?thesis by auto
  next
    case False
    show ?thesis
    proof (cases "align_forward_adjustment_with_header sizeof_AllocationHeader freeBlock alignment")
      case (Inl e)
      with False step(2) show ?thesis by auto
    next
      case (Inr adjustment)
      show ?thesis
      proof (cases "size' + adjustment + sizeof_AllocationHeader < int_to_size_t (fb_size m freeBlock)
                     \<and> (bestFit = 0 \<or> fb_size m freeBlock <s fb_size m bestFit)")
        case True
        with False Inr step(2) obtain m2 where
          "search m2 size' alignment (fb_next m2 freeBlock) freeBlock
             (size' + adjustment + sizeof_AllocationHeader) adjustment = Some y"
          by (simp add: Let_def)
        from step(1) [OF this] Inr show ?thesis by simp
      next
        case nq: False
        with False Inr step(2) have
          "search m size' alignment (fb_next m freeBlock) bestFit bestFitTotalSize bestFitAdjustment = Some y"
          by (simp add: Let_def)
        from step(1) [OF this] show ?thesis by simp
      qed
    qed
  qed
qed

lemma Allocate_pointer:
  assumes "Allocate a size' alignment = Some (Inr ptr, a')"
  shows "\<exists>B adjustment. B \<noteq> 0
           \<and> align_forward_adjustment_with_header sizeof_AllocationHeader B alignment = Inr adjustment
           \<and> ptr = B + adjustment"
proof -
  from assms obtain m B t adj where
    s: "Allocate_search (mem a) size' alignment (m_freeBlocks a) 0 0 0 = Some (m, Inr (B, t, adj))"
    and B: "B \<noteq> 0" and p: "ptr = B + adj"
    by (auto simp: Allocate_def Let_def split: option.splits sum.splits prod.splits if_splits)
  from Allocate_search_adjustment_aux [OF s] B
  have "align_forward_adjustment_with_header sizeof_AllocationHeader B alignment = Inr adj"
    by simp
  with B p show ?thesis by blast
qed

text \<open>
  Claim C3. For an alignment \<open>2 ^ k\<close> (\<open>k < 64\<close>, every power of two a 64-bit word
  holds) and every address \<open>p\<close>, \<^verbatim>\<open>align_forward_adjustment_with_header\<close> returns an
  adjustment such that \<open>p + adjustment\<close> is a multiple of the alignment, the adjustment is
  at least \<^verbatim>\<open>sizeof(AllocationHeader)\<close>, and no smaller value has both properties; and
  every pointer a successful \<^verbatim>\<open>Allocate\<close> returns, from any state, is a multiple of the
  alignment it was asked for.
\<close>

theorem Allocate_aligned:
  assumes "k < 64"
  shows "(\<exists>adjustment.
            align_forward_adjustment_with_header sizeof_AllocationHeader p (2 ^ k) = Inr adjustment
          \<and> (p + adjustment) mod 2 ^ k = 0
          \<and> sizeof_AllocationHeader \<le> adjustment
          \<and> (\<forall>d. sizeof_AllocationHeader \<le> d \<and> (p + d) mod 2 ^ k = 0 \<longrightarrow> adjustment \<le> d))
       \<and> (\<forall>a size' ptr a'. Allocate a size' (2 ^ k) = Some (Inr ptr, a') \<longrightarrow> ptr mod 2 ^ k = 0)"
proof (intro conjI allI impI)
  show "\<exists>adjustment.
            align_forward_adjustment_with_header sizeof_AllocationHeader p (2 ^ k) = Inr adjustment
          \<and> (p + adjustment) mod 2 ^ k = 0
          \<and> sizeof_AllocationHeader \<le> adjustment
          \<and> (\<forall>d. sizeof_AllocationHeader \<le> d \<and> (p + d) mod 2 ^ k = 0 \<longrightarrow> adjustment \<le> d)"
    by (rule align_adjustment_props [OF assms])
next
  fix a size' ptr a'
  assume "Allocate a size' (2 ^ k) = Some (Inr ptr, a')"
  from Allocate_pointer [OF this] obtain B adjustment where
    adj: "align_forward_adjustment_with_header sizeof_AllocationHeader B (2 ^ k) = Inr adjustment"
    and p: "ptr = B + adjustment" by blast
  from align_adjustment_props [OF assms, of B] adj have "(B + adjustment) mod 2 ^ k = 0"
    by auto
  with p show "ptr mod 2 ^ k = 0" by simp
qed

theorem Allocate_aligned_witness:
  "(\<exists>adjustment.
      align_forward_adjustment_with_header sizeof_AllocationHeader 0x1005 8 = Inr adjustment
      \<and> (0x1005 + adjustment) mod 8 = 0 \<and> sizeof_AllocationHeader \<le> adjustment)
   \<and> (\<exists>ptr a'. Allocate arena_300 16 8 = Some (Inr ptr, a') \<and> ptr mod 8 = 0)"
proof -
  have k: "(3::nat) < 64" by simp
  have e: "(2 :: 64 word) ^ 3 = 8" by simp
  note inst = Allocate_aligned [where k = 3 and p = "0x1005", OF k, unfolded e]
  from inst [THEN conjunct1] obtain adjustment where adj:
    "align_forward_adjustment_with_header sizeof_AllocationHeader 0x1005 8 = Inr adjustment"
    "(0x1005 + adjustment) mod 8 = 0" "sizeof_AllocationHeader \<le> adjustment"
    by (elim exE conjE)
  have first: "\<exists>adjustment.
      align_forward_adjustment_with_header sizeof_AllocationHeader 0x1005 8 = Inr adjustment
      \<and> (0x1005 + adjustment) mod 8 = 0 \<and> sizeof_AllocationHeader \<le> adjustment"
    using adj by (intro exI [of _ adjustment] conjI)
  from inst [THEN conjunct2, rule_format, OF Allocate_arena_300]
  have "(0x1010 :: 64 word) mod 8 = 0" .
  with Allocate_arena_300
  have second: "\<exists>ptr a'. Allocate arena_300 16 8 = Some (Inr ptr, a') \<and> ptr mod 8 = 0"
    by (intro exI conjI)
  from first second show ?thesis by (rule conjI)
qed

text \<open>
  Claim C8, at an input where the code departs from it. The \<^verbatim>\<open>size\<close> fields are
  \<^verbatim>\<open>int\<close>: in an arena of 2 GiB and 64 bytes, \<^verbatim>\<open>Allocate(0x80000000, 8)\<close> succeeds with
  a footprint of \<^verbatim>\<open>0x80000020\<close> bytes, by which \<^verbatim>\<open>GetUsed\<close> grows, and the header it
  leaves holds the low 32 bits of that footprint, which \<^verbatim>\<open>Free\<close> would read back as
  \<^verbatim>\<open>0xFFFFFFFF80000020\<close>.
\<close>

theorem header_size_truncated:
  "\<exists>a p a'. FreeListAllocator_ctor 0x80000040 0x1000 (\<lambda>_. 0) = Inr a
     \<and> Allocate a 0x80000000 8 = Some (Inr p, a')
     \<and> GetUsed a' = 0x80000020
     \<and> int_to_size_t (hdr_size (mem a') (ptr_sub p sizeof_AllocationHeader)) = 0xFFFFFFFF80000020"
proof -
  have "Allocate arena_2G 0x80000000 8 = Some (Inr 0x1010,
      \<lparr>m_size = 0x80000040, m_usedBytes = 0x80000020, m_numAllocations = 1,
       m_start = 0x1000, m_freeBlocks = 0x80001020,
       mem = store32 (store64 (store64 (store64 (store32 (mem arena_2G)
               0x80001020 0x20) 0x80001028 0) 0x80001030 0) 0x1008 16) 0x1000 0x80000020\<rparr>)"
    by (simp add: arena_2G_def Allocate_defs Allocate_search.simps field_defs size_defs disj_rules
        Let_def cong: let_weak_cong prod.case_cong_weak)
  with ctor_arena_2G show ?thesis
    by (simp add: GetUsed_def ptr_sub_def hdr_size_def size_defs)
qed

text \<open>
  Claim C10, at an input where the code departs from it. Constructed over 4 GiB and 64
  bytes, the allocator reports that size, and the one free block at the start of the arena
  holds the size 64: the \<^verbatim>\<open>int\<close> field keeps the low 32 bits of \<^verbatim>\<open>sizeBytes\<close>.
\<close>

theorem FreeListAllocator_ctor_size_truncated:
  "\<exists>a. FreeListAllocator_ctor 0x100000040 0x1000 (\<lambda>_. 0) = Inr a
     \<and> m_freeBlocks a = 0x1000 \<and> GetSize a = 0x100000040
     \<and> int_to_size_t (fb_size (mem a) (m_freeBlocks a)) = 0x40"
  by (simp add: ctor_defs field_defs size_defs GetSize_def disj_rules)

text \<open>
  Below 2 GiB the constructor does what C10 says: it refuses a size of at most
  \<^verbatim>\<open>sizeof(FreeBlock)\<close>, and otherwise leaves one free block at the start of the arena,
  of the arena's size, with no neighbours, and both counters at 0.
\<close>

lemma FreeListAllocator_ctor_assert:
  "sizeBytes \<le> sizeof_FreeBlock \<Longrightarrow>
     FreeListAllocator_ctor sizeBytes start m = Inl assertion_failed"
  by (auto simp: ctor_defs)

lemma FreeListAllocator_ctor_one_block:
  assumes "sizeof_FreeBlock < sizeBytes" and "sizeBytes < 2 ^ 31" and "start \<noteq> 0"
  shows "\<exists>a. FreeListAllocator_ctor sizeBytes start m = Inr a
     \<and> free_list a [start] \<and> GetStart a = start
     \<and> int_to_size_t (fb_size (mem a) start) = sizeBytes \<and> GetSize a = sizeBytes
     \<and> GetUsed a = 0 \<and> GetNumAllocation a = 0"
proof -
  from assms(1) have pos: "0 < sizeBytes"
    by (simp add: sizeof_FreeBlock_def) unat_arith
  with assms int_to_size_t_size_t_to_int [OF assms(2)] show ?thesis
    by (simp add: ctor_defs free_list_def GetStart_def GetSize_def GetUsed_def
        GetNumAllocation_def Let_def)
qed

text \<open>
  Claim C1, at an input where the code departs from it. In an arena of 2 GiB and 4 KiB,
  after two allocations of 16 bytes and the release of the first, the free list holds a
  block of 48 bytes at \<^verbatim>\<open>0x1000\<close> and the remainder of the arena at \<^verbatim>\<open>0x1060\<close>, whose
  \<^verbatim>\<open>int\<close> size field \<^verbatim>\<open>0x80000FA0\<close> is negative. A request of 8 bytes has a footprint of 40
  bytes at \<^verbatim>\<open>0x1000\<close>, so both blocks qualify and the block of 48 bytes is the smaller;
  \<^verbatim>\<open>Allocate\<close> serves the request from the remainder, at \<^verbatim>\<open>0x1070\<close>, because the
  comparison \<^verbatim>\<open>freeBlock->size < bestFit->size\<close> takes the larger block for the smaller.
\<close>

theorem Allocate_prefers_oversized_block:
  "\<exists>a0 a1 a2 a3 a4.
     FreeListAllocator_ctor 0x80001000 0x1000 junk = Inr a0
   \<and> Allocate a0 16 8 = Some (Inr 0x1010, a1)
   \<and> Allocate a1 16 8 = Some (Inr 0x1040, a2)
   \<and> Free a2 0x1010 = Some (Inr a3)
   \<and> free_list a3 [0x1000, 0x1060]
   \<and> fb_size (mem a3) 0x1000 = 48 \<and> fb_size (mem a3) 0x1060 = 0x80000FA0
   \<and> align_forward_adjustment_with_header sizeof_AllocationHeader 0x1000 8 = Inr 16
   \<and> Allocate a3 8 8 = Some (Inr 0x1070, a4)"
proof -
  note defs = arena_2G4K_def arena_2G4K_A_def arena_2G4K_AB_def arena_2G4K_B_def
  have "free_list arena_2G4K_B [0x1000, 0x1060]"
    by (simp add: free_list_def defs field_defs disj_rules zero_rules)
  moreover have "fb_size (mem arena_2G4K_B) 0x1000 = 48"
    and "fb_size (mem arena_2G4K_B) 0x1060 = 0x80000FA0"
    by (simp_all add: defs field_defs disj_rules zero_rules)
  moreover have
    "align_forward_adjustment_with_header sizeof_AllocationHeader 0x1000 8 = Inr 16"
    by (simp add: align_forward_adjustment_with_header_def sizeof_AllocationHeader_def Let_def)
  ultimately show ?thesis
    using ctor_arena_2G4K Allocate_arena_2G4K_16 Allocate_arena_2G4K_A_16
      Free_arena_2G4K_AB_0x1010 Allocate_arena_2G4K_B_8
    by (intro exI conjI)
qed

text \<open>
  Claim C2, at an input where the code departs from it. The arena of 2 GiB and 64 bytes
  holds one free block, of the arena's size. A request of 3 GiB, whose footprint
  \<^verbatim>\<open>0xC0000020\<close> no block exceeds, is not refused: the \<^verbatim>\<open>int\<close> size field is negative,
  passes the test of line 101 as a huge \<^verbatim>\<open>std::size_t\<close>, and \<^verbatim>\<open>Allocate\<close> returns a
  pointer and counts more bytes in use than the arena has.
\<close>

theorem Allocate_beyond_the_arena:
  "\<exists>a p a'.
     FreeListAllocator_ctor 0x80000040 0x1000 (\<lambda>_. 0) = Inr a
   \<and> free_list a [0x1000] \<and> fb_size (mem a) 0x1000 = 0x80000040
   \<and> Allocate a 0xC0000000 8 = Some (Inr p, a')
   \<and> GetUsed a' = 0xC0000020 \<and> GetSize a' = 0x80000040"
proof -
  have "free_list arena_2G [0x1000]" and "fb_size (mem arena_2G) 0x1000 = 0x80000040"
    by (simp_all add: free_list_def arena_2G_def field_defs disj_rules)
  moreover have "\<exists>a'. Allocate arena_2G 0xC0000000 8 = Some (Inr 0x1010, a')
      \<and> GetUsed a' = 0xC0000020 \<and> GetSize a' = 0x80000040"
    by (simp add: arena_2G_def run_simps GetUsed_def GetSize_def
        cong: let_weak_cong prod.case_cong_weak)
  ultimately show ?thesis
    using ctor_arena_2G by blast
qed

text \<open>
  Claim C4, at an input where the code departs from it. In the arena of 2 GiB and 64 bytes
  a request of \<^verbatim>\<open>0x80000010\<close> bytes has the footprint \<^verbatim>\<open>0x80000030\<close>, which leaves 16
  bytes of the block, not more than \<^verbatim>\<open>sizeof(AllocationHeader)\<close>: the block should be
  consumed whole. The test of line 120 reads the negative \<^verbatim>\<open>int\<close> size as a huge
  \<^verbatim>\<open>std::size_t\<close>, so the block is split: the footprint recorded is \<^verbatim>\<open>0x80000030\<close> and
  a free block of 16 bytes heads the list.
\<close>

theorem Allocate_splits_off_16_bytes:
  "\<exists>a p a'.
     FreeListAllocator_ctor 0x80000040 0x1000 (\<lambda>_. 0) = Inr a
   \<and> free_list a [0x1000] \<and> fb_size (mem a) 0x1000 = 0x80000040
   \<and> Allocate a 0x80000010 8 = Some (Inr p, a')
   \<and> GetUsed a' = 0x80000030
   \<and> free_list a' [0x80001030] \<and> fb_size (mem a') 0x80001030 = 16"
proof -
  have "free_list arena_2G [0x1000]" and "fb_size (mem arena_2G) 0x1000 = 0x80000040"
    by (simp_all add: free_list_def arena_2G_def field_defs disj_rules)
  moreover have "\<exists>a'. Allocate arena_2G 0x80000010 8 = Some (Inr 0x1010, a')
      \<and> GetUsed a' = 0x80000030
      \<and> free_list a' [0x80001030] \<and> fb_size (mem a') 0x80001030 = 16"
    by (simp add: arena_2G_def run_simps GetUsed_def free_list_def
        cong: let_weak_cong prod.case_cong_weak)
  ultimately show ?thesis
    using ctor_arena_2G by blast
qed

text \<open>
  Claim C5, at two inputs where the code departs from it. \<^verbatim>\<open>Free\<close> reads
  \<^verbatim>\<open>header->adjustment\<close> a second time on line 217, after the \<^verbatim>\<open>FreeBlock\<close> record has been
  written over the header: with an adjustment of 16 the header starts where the block
  starts, and the bytes of \<^verbatim>\<open>adjustment\<close> are by then those of \<^verbatim>\<open>next\<close>. When \<^verbatim>\<open>next\<close> is
  null the range zeroed starts at the block itself and takes the record's size with it.

  In the arena of 300 bytes, three allocations of 16 bytes freed last to first leave one
  block, of size 0. In an arena of 160 bytes, which the three allocations use up, freeing
  the second, then the first, then the third leaves two blocks, of size 0 both.
\<close>

theorem Free_coalescing_loses_the_sizes:
  "(\<exists>a0 a1 a2 a3 a4 a5 a6.
      FreeListAllocator_ctor 300 0x1000 junk = Inr a0
    \<and> Allocate a0 16 8 = Some (Inr 0x1010, a1)
    \<and> Allocate a1 16 8 = Some (Inr 0x1040, a2)
    \<and> Allocate a2 16 8 = Some (Inr 0x1070, a3)
    \<and> Free a3 0x1070 = Some (Inr a4)
    \<and> Free a4 0x1040 = Some (Inr a5)
    \<and> Free a5 0x1010 = Some (Inr a6)
    \<and> fl_path (mem a6) (m_freeBlocks a6) [0x1000] \<and> fb_size (mem a6) 0x1000 = 0)
   \<and> (\<exists>a0 a1 a2 a3 a4 a5 a6.
      FreeListAllocator_ctor 160 0x1000 junk = Inr a0
    \<and> Allocate a0 16 8 = Some (Inr 0x1010, a1)
    \<and> Allocate a1 16 8 = Some (Inr 0x1040, a2)
    \<and> Allocate a2 16 8 = Some (Inr 0x1070, a3)
    \<and> Free a3 0x1040 = Some (Inr a4)
    \<and> Free a4 0x1010 = Some (Inr a5)
    \<and> Free a5 0x1070 = Some (Inr a6)
    \<and> fl_path (mem a6) (m_freeBlocks a6) [0x1000, 0x1060]
    \<and> fb_size (mem a6) 0x1000 = 0 \<and> fb_size (mem a6) 0x1060 = 0)"
proof -
  note defs300 = arena_300_def arena_300_A_def arena_300_AB_def arena_300_ABC_def
    arena_300_AB_C_def arena_300_A_BC_def arena_300_ABC_freed_def
  note defs160 = arena_160_def arena_160_A_def arena_160_AB_def arena_160_ABC_def
    arena_160_AC_def arena_160_C_def arena_160_freed_def
  have "fl_path (mem arena_300_ABC_freed) (m_freeBlocks arena_300_ABC_freed) [0x1000]"
    and "fb_size (mem arena_300_ABC_freed) 0x1000 = 0"
    by (simp_all add: defs300 field_defs disj_rules zero_rules)
  then have first: "\<exists>a0 a1 a2 a3 a4 a5 a6.
      FreeListAllocator_ctor 300 0x1000 junk = Inr a0
    \<and> Allocate a0 16 8 = Some (Inr 0x1010, a1)
    \<and> Allocate a1 16 8 = Some (Inr 0x1040, a2)
    \<and> Allocate a2 16 8 = Some (Inr 0x1070, a3)
    \<and> Free a3 0x1070 = Some (Inr a4)
    \<and> Free a4 0x1040 = Some (Inr a5)
    \<and> Free a5 0x1010 = Some (Inr a6)
    \<and> fl_path (mem a6) (m_freeBlocks a6) [0x1000] \<and> fb_size (mem a6) 0x1000 = 0"
    using ctor_arena_300 Allocate_arena_300 Allocate_arena_300_A_16 Allocate_arena_300_AB_16
      Free_arena_300_ABC_0x1070 Free_arena_300_AB_C_0x1040 Free_arena_300_A_BC_0x1010
    by (intro exI conjI)
  have "fl_path (mem arena_160_freed) (m_freeBlocks arena_160_freed) [0x1000, 0x1060]"
    and "fb_size (mem arena_160_freed) 0x1000 = 0"
    and "fb_size (mem arena_160_freed) 0x1060 = 0"
    by (simp_all add: defs160 field_defs disj_rules zero_rules)
  then have second: "\<exists>a0 a1 a2 a3 a4 a5 a6.
      FreeListAllocator_ctor 160 0x1000 junk = Inr a0
    \<and> Allocate a0 16 8 = Some (Inr 0x1010, a1)
    \<and> Allocate a1 16 8 = Some (Inr 0x1040, a2)
    \<and> Allocate a2 16 8 = Some (Inr 0x1070, a3)
    \<and> Free a3 0x1040 = Some (Inr a4)
    \<and> Free a4 0x1010 = Some (Inr a5)
    \<and> Free a5 0x1070 = Some (Inr a6)
    \<and> fl_path (mem a6) (m_freeBlocks a6) [0x1000, 0x1060]
    \<and> fb_size (mem a6) 0x1000 = 0 \<and> fb_size (mem a6) 0x1060 = 0"
    using ctor_arena_160 Allocate_arena_160_16 Allocate_arena_160_A_16 Allocate_arena_160_AB_16
      Free_arena_160_ABC_0x1040 Free_arena_160_AC_0x1010 Free_arena_160_C_0x1070
    by (intro exI conjI)
  from first second show ?thesis by (rule conjI)
qed

text \<open>
  Claim C6, at an input where the code departs from it. \<^verbatim>\<open>Allocate\<close> splits a block when
  more than \<^verbatim>\<open>sizeof(AllocationHeader)\<close>, 16 bytes, are left of it, and the record it writes
  for the remainder is a \<^verbatim>\<open>FreeBlock\<close> of 24 bytes. A request of 17 bytes served from a
  free block of 72 bytes leaves 23: the last byte of the record's \<^verbatim>\<open>prev\<close> falls on the first
  byte of the header of the allocation behind, whose size 40 becomes 0. Freeing that
  allocation then takes nothing off the bytes in use, and after every allocation has been
  freed 40 bytes are still counted.
\<close>

theorem GetUsed_after_matched_frees:
  "\<exists>a0 a1 a2 a3 a4 a5 a6.
     FreeListAllocator_ctor 300 0x1000 junk = Inr a0
   \<and> Allocate a0 40 8 = Some (Inr 0x1010, a1)
   \<and> Allocate a1 8 8 = Some (Inr 0x1058, a2)
   \<and> Free a2 0x1010 = Some (Inr a3)
   \<and> hdr_size (mem a3) (ptr_sub 0x1058 sizeof_AllocationHeader) = 40
   \<and> Allocate a3 17 8 = Some (Inr 0x1010, a4)
   \<and> hdr_size (mem a4) (ptr_sub 0x1058 sizeof_AllocationHeader) = 0
   \<and> Free a4 0x1058 = Some (Inr a5)
   \<and> Free a5 0x1010 = Some (Inr a6)
   \<and> GetUsed a6 = 40 \<and> GetNumAllocation a6 = 0"
proof -
  note defs = arena_300_def arena_300_P_def arena_300_PQ_def arena_300_Q_def
    arena_300_RQ_def
  have "hdr_size (mem arena_300_Q) (ptr_sub 0x1058 sizeof_AllocationHeader) = 40"
    by (simp add: defs ptr_sub_def sizeof_AllocationHeader_def field_defs disj_rules zero_rules)
  moreover have "hdr_size (mem arena_300_RQ) (ptr_sub 0x1058 sizeof_AllocationHeader) = 0"
    by (simp add: defs ptr_sub_def sizeof_AllocationHeader_def field_defs disj_rules zero_rules
        overlap_rules)
  moreover have "GetUsed arena_300_PQR_freed = 40" and "GetNumAllocation arena_300_PQR_freed = 0"
    by (simp_all add: arena_300_PQR_freed_def GetUsed_def GetNumAllocation_def)
  ultimately show ?thesis
    using ctor_arena_300 Allocate_arena_300_40 Allocate_arena_300_P_8 Free_arena_300_PQ_0x1010
      Allocate_arena_300_Q_17 Free_arena_300_RQ_0x1058 Free_arena_300_R_0x1010
    by (intro exI conjI)
qed

text \<open>
  Claim C7, at two inputs where the code departs from it, by the second read of
  \<^verbatim>\<open>header->adjustment\<close> described at C5. With a second allocation alive, the range
  \<^verbatim>\<open>Free\<close> zeroes starts at the block's address plus the address of the next free block, past
  its end: nothing is zeroed, and the second half of the payload still holds the pattern
  written to it (the first half holds the record's \<^verbatim>\<open>prev\<close>). With the freed allocation
  alone in the arena, the range starts at the block itself: the payload is zeroed and so
  is the size of the free block, and the same request again is refused.
\<close>

theorem Free_zeroes_the_wrong_range:
  "(\<exists>a0 a1 a2 a3.
      FreeListAllocator_ctor 300 0x1000 junk = Inr a0
    \<and> Allocate a0 16 8 = Some (Inr 0x1010, a1)
    \<and> Allocate a1 16 8 = Some (Inr 0x1040, a2)
    \<and> Free (a2\<lparr>mem := store_bytes (mem a2) 0x1010 (replicate 16 0xFF)\<rparr>) 0x1010 = Some (Inr a3)
    \<and> load_bytes (mem a3) 0x1018 8 = replicate 8 0xFF)
   \<and> (\<exists>a0 a1 a2.
      FreeListAllocator_ctor 300 0x1000 junk = Inr a0
    \<and> Allocate a0 16 8 = Some (Inr 0x1010, a1)
    \<and> Free (a1\<lparr>mem := store_bytes (mem a1) 0x1010 (replicate 16 0xFF)\<rparr>) 0x1010 = Some (Inr a2)
    \<and> fl_path (mem a2) (m_freeBlocks a2) [0x1000] \<and> fb_size (mem a2) 0x1000 = 0
    \<and> load_bytes (mem a2) 0x1010 16 = replicate 16 0
    \<and> Allocate a2 16 8 = Some (Inl bad_alloc, a2))"
proof -
  note defs = arena_300_def arena_300_A_def arena_300_AB_def arena_300_AB_written_def
    arena_300_B_def arena_300_A_written_def arena_300_A_freed_def
  have r8: "replicate 8 x = [x, x, x, x, x, x, x, x]" for x :: byte
    by (simp add: eval_nat_numeral)
  have r16: "replicate 16 x = [x, x, x, x, x, x, x, x, x, x, x, x, x, x, x, x]" for x :: byte
    by (simp add: eval_nat_numeral)
  have "load_bytes (mem arena_300_B) 0x1018 8 = replicate 8 0xFF"
    unfolding r8
    by (simp add: defs load_bytes_def upt_rec ZeroedAddresses_apply store64_apply store32_apply
        store_bytes_apply)
  then have first: "\<exists>a0 a1 a2 a3.
      FreeListAllocator_ctor 300 0x1000 junk = Inr a0
    \<and> Allocate a0 16 8 = Some (Inr 0x1010, a1)
    \<and> Allocate a1 16 8 = Some (Inr 0x1040, a2)
    \<and> Free (a2\<lparr>mem := store_bytes (mem a2) 0x1010 (replicate 16 0xFF)\<rparr>) 0x1010 = Some (Inr a3)
    \<and> load_bytes (mem a3) 0x1018 8 = replicate 8 0xFF"
    using ctor_arena_300 Allocate_arena_300 Allocate_arena_300_A_16
      Free_arena_300_AB_written_0x1010 [unfolded arena_300_AB_written_def]
    by (intro exI conjI)
  have "fl_path (mem arena_300_A_freed) (m_freeBlocks arena_300_A_freed) [0x1000]"
    and "fb_size (mem arena_300_A_freed) 0x1000 = 0"
    by (simp_all add: defs field_defs disj_rules zero_rules)
  moreover have "load_bytes (mem arena_300_A_freed) 0x1010 16 = replicate 16 0"
    unfolding r16
    by (simp add: defs load_bytes_def upt_rec ZeroedAddresses_apply)
  ultimately have second: "\<exists>a0 a1 a2.
      FreeListAllocator_ctor 300 0x1000 junk = Inr a0
    \<and> Allocate a0 16 8 = Some (Inr 0x1010, a1)
    \<and> Free (a1\<lparr>mem := store_bytes (mem a1) 0x1010 (replicate 16 0xFF)\<rparr>) 0x1010 = Some (Inr a2)
    \<and> fl_path (mem a2) (m_freeBlocks a2) [0x1000] \<and> fb_size (mem a2) 0x1000 = 0
    \<and> load_bytes (mem a2) 0x1010 16 = replicate 16 0
    \<and> Allocate a2 16 8 = Some (Inl bad_alloc, a2)"
    using ctor_arena_300 Allocate_arena_300
      Free_arena_300_A_written_0x1010 [unfolded arena_300_A_written_def]
      Allocate_arena_300_A_freed_16
    by (intro exI conjI)
  from first second show ?thesis by (rule conjI)
qed

end
